theory Spec2Isabelle
  imports Complex_Main
begin

section \<open>JavaScript values\<close>

text \<open>
  The widget is a Lightning web component written in JavaScript. Its public properties and
  the values it hands to the rendering library are JavaScript scalars: \<open>undefined\<close>,
  \<open>null\<close>, booleans, numbers and strings. Finite numbers are rationals (every finite double
  is one; \<open>-0\<close> is \<open>0\<close>), \<open>NaN\<close> is a value of its own because it is falsy. Strings are
  ASCII character lists.
\<close>

datatype jsval =
    JUndefined
  | JNull
  | JBool bool
  | JNum rat
  | JNaN
  | JStr string

text \<open>ToBoolean: what \<open>!v\<close>, \<open>!!v\<close>, \<open>if (v)\<close> and \<open>v || w\<close> test.\<close>

fun truthy :: "jsval \<Rightarrow> bool" where
  "truthy JUndefined = False"
| "truthy JNull = False"
| "truthy (JBool b) = b"
| "truthy (JNum q) = (q \<noteq> 0)"
| "truthy JNaN = False"
| "truthy (JStr s) = (s \<noteq> [])"

text \<open>\<open>a || b\<close>: the left operand when it is truthy, the right one otherwise.\<close>

definition js_or :: "jsval \<Rightarrow> jsval \<Rightarrow> jsval" where
  "js_or a b = (if truthy a then a else b)"

text \<open>
  Properties on which the code calls a string method directly (\<open>trim\<close>, \<open>toLowerCase\<close>)
  or which it interpolates into a template literal are text design attributes: a string,
  or absent. They are \<open>string option\<close>, \<open>None\<close> standing for \<open>undefined\<close> and \<open>null\<close>
  alike, which the code never tells apart.
\<close>

type_synonym text_prop = "string option"

fun truthy_text :: "text_prop \<Rightarrow> bool" where
  "truthy_text None = False"
| "truthy_text (Some s) = (s \<noteq> [])"

text \<open>\<open>(t || dflt)\<close> on a text property, \<open>dflt\<close> a string literal.\<close>

fun text_or :: "text_prop \<Rightarrow> string \<Rightarrow> string" where
  "text_or None dflt = dflt"
| "text_or (Some s) dflt = (if s = [] then dflt else s)"

text \<open>
  \<open>String.prototype.trim\<close> on ASCII: tab, line feed, vertical tab, form feed, carriage
  return and space are stripped at both ends.
\<close>

definition is_space :: "char \<Rightarrow> bool" where
  "is_space c = (c \<in> {CHR 0x09, CHR 0x0A, CHR 0x0B, CHR 0x0C, CHR 0x0D, CHR 0x20})"

definition trim :: "string \<Rightarrow> string" where
  "trim s = rev (dropWhile is_space (rev (dropWhile is_space s)))"

text \<open>\<open>String.prototype.toLowerCase\<close> on ASCII: \<open>A\<close>..\<open>Z\<close> become \<open>a\<close>..\<open>z\<close>.\<close>

definition lower_char :: "char \<Rightarrow> char" where
  "lower_char c =
     (let n = (of_char c :: nat) in if 65 \<le> n \<and> n \<le> 90 then char_of (n + 32) else c)"

definition toLowerCase :: "string \<Rightarrow> string" where
  "toLowerCase s = map lower_char s"

text \<open>
  \<open>(v || undefined)?.toLowerCase?.()\<close>: a falsy \<open>v\<close> gives \<open>undefined\<close> at the first
  \<open>?.\<close>; a truthy value that is not a string has no \<open>toLowerCase\<close> method, so the second
  \<open>?.\<close> gives \<open>undefined\<close>; a non-empty string is lowercased.
\<close>

definition opt_toLowerCase :: "jsval \<Rightarrow> jsval" where
  "opt_toLowerCase v =
     (case js_or v JUndefined of
        JStr s \<Rightarrow> JStr (toLowerCase s)
      | _ \<Rightarrow> JUndefined)"

section \<open>External collaborators\<close>

text \<open>
  The record snapshot delivered by the record data provider maps a qualified field name to
  a scalar. \<open>getFieldValue\<close> of \<open>lightning/uiRecordApi\<close> reads it and answers
  \<open>undefined\<close> for a field the snapshot does not hold.
\<close>

type_synonym record_snapshot = "string \<rightharpoonup> jsval"

definition getFieldValue :: "record_snapshot \<Rightarrow> string \<Rightarrow> jsval" where
  "getFieldValue r q = (case r q of None \<Rightarrow> JUndefined | Some v \<Rightarrow> v)"

text \<open>What the wire adapter \<open>getRecord\<close> hands to \<open>wiredRecord\<close>: \<open>{ data, error }\<close>
  with at most one of them set.\<close>

datatype wire_result =
    WireData record_snapshot
  | WireError string
  | WireNothing

text \<open>The page reference of \<open>CurrentPageReference\<close>: \<open>undefined\<close>, or an object whose
  \<open>state\<close> is \<open>undefined\<close> or a map from parameter names to values.\<close>

datatype page_ref =
    NoPageRef
  | PageRef "(string \<rightharpoonup> jsval) option"

text \<open>\<open>pageRef?.state?.[key]\<close>\<close>

fun page_state_lookup :: "page_ref \<Rightarrow> string \<Rightarrow> jsval" where
  "page_state_lookup NoPageRef key = JUndefined"
| "page_state_lookup (PageRef None) key = JUndefined"
| "page_state_lookup (PageRef (Some st)) key =
     (case st key of None \<Rightarrow> JUndefined | Some v \<Rightarrow> v)"

text \<open>The promise returned by \<open>loadScript\<close>: it settles at most once.\<close>

datatype promise = NotStarted | Pending | Fulfilled | Rejected

section \<open>The options object of the rendering library\<close>

record background_options =
  bg_color :: jsval

record part_options =
  color :: jsval
  type :: jsval

record qr_level =
  errorCorrectionLevel :: string

record image_options =
  crossOrigin :: string
  margin :: jsval
  imageSize :: jsval
  hideBackgroundDots :: bool

text \<open>\<open>image\<close> and \<open>imageOptions\<close> are properties the code adds only when a logo is
  configured: \<open>None\<close> is an absent property.\<close>

record qr_options =
  width :: jsval
  height :: jsval
  data :: jsval
  dotsOptions :: part_options
  backgroundOptions :: background_options
  cornersSquareOptions :: part_options
  cornersDotOptions :: part_options
  qrOptions :: qr_level
  image :: "jsval option"
  imageOptions :: "image_options option"

text \<open>Calls on the rendering library, in the order they are made. The instance is named
  by a number, fresh for each \<open>new QRCodeStyling(options)\<close>.\<close>

datatype render_call =
    NewQRCodeStyling nat qr_options
  | Append nat
  | Update nat qr_options

fun is_create :: "render_call \<Rightarrow> bool" where
  "is_create (NewQRCodeStyling h opts) = True"
| "is_create c = False"

fun is_update :: "render_call \<Rightarrow> bool" where
  "is_update (Update h opts) = True"
| "is_update c = False"

section \<open>The component\<close>

text \<open>The public (\<open>@api\<close>) properties.\<close>

record config =
  recordId :: jsval
  objectApiName :: text_prop
  qrCodeValueFieldApiName :: text_prop
  valueSource :: jsval
  providedValue :: jsval
  urlParamName :: text_prop
  showTitle :: jsval
  titleFieldApiName :: text_prop
  titleStaticValue :: jsval
  qrCodeHeight :: jsval
  qrCodeWidth :: jsval
  qrCodeDotsColor :: jsval
  qrCodeDotsType :: text_prop
  backgroundColor :: jsval
  cornersSquareStyle :: jsval
  cornersDotStyle :: jsval
  logoUrl :: jsval
  logoImageSize :: jsval
  logoImageMargin :: jsval
  noQrValueMessage :: jsval

text \<open>
  The component instance with the part of the world it acts on: its private fields
  (\<open>recordSnap\<close> is the field \<open>record\<close>, \<open>None\<close> for \<open>undefined\<close>; \<open>qrCodeInstance\<close> is
  \<open>None\<close> for \<open>undefined\<close> and \<open>null\<close>), the children of the element
  \<open>.qrcode\<close> (\<open>qrDiv = None\<close> when \<open>querySelector\<close> finds no such element), the calls made
  on the rendering library, the lines written with \<open>console.error\<close>, and the promise of
  \<open>loadScript\<close> with the number of times \<open>loadScript\<close> was called.
\<close>

record qr_code =
  cfg :: config
  recordSnap :: "record_snapshot option"
  error :: "string option"
  urlParamValue :: jsval
  qrCodeInstance :: "nat option"
  qrCodeLibLoaded :: bool
  domReady :: bool
  scriptLoadStarted :: bool
  qrDiv :: "nat list option"
  renderer :: "render_call list"
  console :: "string list"
  loadScriptPromise :: promise
  loadScriptCalls :: nat
  nextInstance :: nat

text \<open>The field initialisers of the class.\<close>

definition initial_config :: config where
  "initial_config =
     \<lparr> recordId = JUndefined, objectApiName = None, qrCodeValueFieldApiName = None,
       valueSource = JStr ''Provided Value'', providedValue = JUndefined,
       urlParamName = Some ''qrv'', showTitle = JUndefined, titleFieldApiName = None,
       titleStaticValue = JUndefined, qrCodeHeight = JUndefined, qrCodeWidth = JUndefined,
       qrCodeDotsColor = JUndefined, qrCodeDotsType = Some ''Rounded'',
       backgroundColor = JUndefined, cornersSquareStyle = JUndefined,
       cornersDotStyle = JUndefined, logoUrl = JUndefined, logoImageSize = JUndefined,
       logoImageMargin = JUndefined, noQrValueMessage = JUndefined \<rparr>"

definition initial_state :: qr_code where
  "initial_state =
     \<lparr> cfg = initial_config, recordSnap = None, error = None, urlParamValue = JUndefined,
       qrCodeInstance = None, qrCodeLibLoaded = False, domReady = False,
       scriptLoadStarted = False, qrDiv = None, renderer = [], console = [],
       loadScriptPromise = NotStarted, loadScriptCalls = 0, nextInstance = 0 \<rparr>"

subsection \<open>Mode helpers\<close>

definition usesRecordField :: "qr_code \<Rightarrow> bool" where
  "usesRecordField s =
     (truthy (recordId (cfg s)) \<and> truthy_text (objectApiName (cfg s))
      \<and> truthy_text (qrCodeValueFieldApiName (cfg s)))"

definition effectiveUrlParamName :: "qr_code \<Rightarrow> string" where
  "effectiveUrlParamName s = trim (text_or (urlParamName (cfg s)) ''qrv'')"

subsection \<open>Utilities\<close>

text \<open>\<open>getQualifiedFieldName(fieldName)\<close>; \<open>None\<close> is the \<open>null\<close> it returns.\<close>

definition getQualifiedFieldName :: "qr_code \<Rightarrow> text_prop \<Rightarrow> string option" where
  "getQualifiedFieldName s fieldName =
     (let field = trim (text_or fieldName '''') in
      if field = [] then None
      else if \<not> truthy_text (objectApiName (cfg s)) then None
      else Some (the (objectApiName (cfg s)) @ ''.'' @ field))"

subsection \<open>Data wiring and computed values\<close>

definition fields :: "qr_code \<Rightarrow> string list" where
  "fields s =
     (if \<not> usesRecordField s then []
      else List.map_filter (\<lambda>x. x)
        [getQualifiedFieldName s (titleFieldApiName (cfg s)),
         getQualifiedFieldName s (qrCodeValueFieldApiName (cfg s))])"

definition title :: "qr_code \<Rightarrow> jsval" where
  "title s =
     (if \<not> truthy (showTitle (cfg s)) then JNull
      else
        let static = js_or (titleStaticValue (cfg s)) (JStr ''QR Code'') in
        (case recordSnap s of
           None \<Rightarrow> static
         | Some r \<Rightarrow>
             if \<not> truthy_text (titleFieldApiName (cfg s)) then static
             else
               let val = (case getQualifiedFieldName s (titleFieldApiName (cfg s)) of
                            Some qualified \<Rightarrow> getFieldValue r qualified
                          | None \<Rightarrow> JNull)
               in if truthy val then val else static))"

definition qrValueResolved :: "qr_code \<Rightarrow> jsval" where
  "qrValueResolved s =
     (if usesRecordField s then
        (case recordSnap s of
           None \<Rightarrow> JNull
         | Some r \<Rightarrow>
             (case getQualifiedFieldName s (qrCodeValueFieldApiName (cfg s)) of
                Some qualified \<Rightarrow> getFieldValue r qualified
              | None \<Rightarrow> JNull))
      else if valueSource (cfg s) = JStr ''URL Parameter'' then
        js_or (urlParamValue s) JNull
      else js_or (providedValue (cfg s)) JNull)"

definition hasQrValue :: "qr_code \<Rightarrow> bool" where
  "hasQrValue s = truthy (qrValueResolved s)"

definition noValueMessage :: "qr_code \<Rightarrow> jsval" where
  "noValueMessage s = js_or (noQrValueMessage (cfg s)) (JStr ''QR code is not available.'')"

definition isReadyToRender :: "qr_code \<Rightarrow> bool" where
  "isReadyToRender s =
     (if \<not> domReady s \<or> \<not> qrCodeLibLoaded s then False
      else if usesRecordField s then recordSnap s \<noteq> None
      else True)"

subsection \<open>Draw QR\<close>

definition corner_type :: "jsval \<Rightarrow> jsval" where
  "corner_type style = (if style = JStr ''None'' then JUndefined else opt_toLowerCase style)"

definition buildOptions :: "qr_code \<Rightarrow> jsval \<Rightarrow> qr_options" where
  "buildOptions s d =
     (let dotsType = toLowerCase (text_or (qrCodeDotsType (cfg s)) ''Rounded'');
          options =
            \<lparr> width = qrCodeWidth (cfg s),
              height = qrCodeHeight (cfg s),
              data = d,
              dotsOptions = \<lparr> color = qrCodeDotsColor (cfg s), type = JStr dotsType \<rparr>,
              backgroundOptions = \<lparr> bg_color = backgroundColor (cfg s) \<rparr>,
              cornersSquareOptions =
                \<lparr> color = qrCodeDotsColor (cfg s),
                  type = corner_type (cornersSquareStyle (cfg s)) \<rparr>,
              cornersDotOptions =
                \<lparr> color = qrCodeDotsColor (cfg s),
                  type = corner_type (cornersDotStyle (cfg s)) \<rparr>,
              qrOptions = \<lparr> errorCorrectionLevel = ''H'' \<rparr>,
              image = None,
              imageOptions = None \<rparr>
      in if truthy (logoUrl (cfg s)) then
           options
             \<lparr> image := Some (logoUrl (cfg s)),
               imageOptions :=
                 Some \<lparr> crossOrigin = ''anonymous'',
                        margin = js_or (logoImageMargin (cfg s)) (JNum 5),
                        imageSize = js_or (logoImageSize (cfg s)) (JNum (1 / 2)),
                        hideBackgroundDots = True \<rparr> \<rparr>
         else options)"

definition tryRenderOrUpdateQr :: "qr_code \<Rightarrow> qr_code" where
  "tryRenderOrUpdateQr s =
     (if \<not> isReadyToRender s then s
      else
        (case qrDiv s of
           None \<Rightarrow> s
         | Some children \<Rightarrow>
             let val = qrValueResolved s in
             if \<not> truthy val then
               (case qrCodeInstance s of
                  Some h \<Rightarrow> s \<lparr> qrDiv := Some [], qrCodeInstance := None \<rparr>
                | None \<Rightarrow> s)
             else
               let options = buildOptions s val in
               (case qrCodeInstance s of
                  None \<Rightarrow>
                    s \<lparr> qrDiv := Some [nextInstance s],
                        qrCodeInstance := Some (nextInstance s),
                        nextInstance := Suc (nextInstance s),
                        renderer := renderer s @
                          [NewQRCodeStyling (nextInstance s) options,
                           Append (nextInstance s)] \<rparr>
                | Some h \<Rightarrow> s \<lparr> renderer := renderer s @ [Update h options] \<rparr>)))"

subsection \<open>Lifecycle hooks and wire handlers\<close>

definition connectedCallback :: "qr_code \<Rightarrow> qr_code" where
  "connectedCallback s =
     (if scriptLoadStarted s then s
      else s \<lparr> scriptLoadStarted := True, loadScriptPromise := Pending,
               loadScriptCalls := Suc (loadScriptCalls s) \<rparr>)"

text \<open>The two handlers attached to the promise of \<open>loadScript\<close>: \<open>then\<close> and \<open>catch\<close>.\<close>

definition scriptLoaded :: "qr_code \<Rightarrow> qr_code" where
  "scriptLoaded s = tryRenderOrUpdateQr (s \<lparr> qrCodeLibLoaded := True \<rparr>)"

definition scriptFailed :: "string \<Rightarrow> qr_code \<Rightarrow> qr_code" where
  "scriptFailed e s = s \<lparr> console := console s @ [''Error loading qr-code-styling:'' @ e] \<rparr>"

definition renderedCallback :: "qr_code \<Rightarrow> qr_code" where
  "renderedCallback s =
     tryRenderOrUpdateQr (if \<not> domReady s then s \<lparr> domReady := True \<rparr> else s)"

definition wiredRecord :: "wire_result \<Rightarrow> qr_code \<Rightarrow> qr_code" where
  "wiredRecord res s =
     (case res of
        WireData d \<Rightarrow> tryRenderOrUpdateQr (s \<lparr> recordSnap := Some d, error := None \<rparr>)
      | WireError e \<Rightarrow> s \<lparr> recordSnap := None, error := Some e, console := console s @ [e] \<rparr>
      | WireNothing \<Rightarrow> s)"

definition wiredPageRef :: "page_ref \<Rightarrow> qr_code \<Rightarrow> qr_code" where
  "wiredPageRef pageRef s =
     (if usesRecordField s then s
      else if valueSource (cfg s) \<noteq> JStr ''URL Parameter'' then s \<lparr> urlParamValue := JNull \<rparr>
      else
        let key = effectiveUrlParamName s;
            raw = (if key \<noteq> [] then page_state_lookup pageRef key else JNull)
        in tryRenderOrUpdateQr (s \<lparr> urlParamValue := js_or raw JNull \<rparr>))"

subsection \<open>The events of an instance's life\<close>

text \<open>
  Everything that can happen to an instance: the engine connects it and finishes a render
  pass, the template inserts or removes the element \<open>.qrcode\<close>, the promise of
  \<open>loadScript\<close> settles (only a pending promise can), the wire adapters deliver, and the
  owner sets public properties.
\<close>

datatype event =
    Connected
  | Rendered
  | MountInserted
  | MountRemoved
  | ScriptLoadResolved
  | ScriptLoadRejected string
  | RecordDelivered wire_result
  | PageRefDelivered page_ref
  | ApiSet config

fun step :: "qr_code \<Rightarrow> event \<Rightarrow> qr_code" where
  "step s Connected = connectedCallback s"
| "step s Rendered = renderedCallback s"
| "step s MountInserted = (if qrDiv s = None then s \<lparr> qrDiv := Some [] \<rparr> else s)"
| "step s MountRemoved = s \<lparr> qrDiv := None \<rparr>"
| "step s ScriptLoadResolved =
     (if loadScriptPromise s = Pending
      then scriptLoaded (s \<lparr> loadScriptPromise := Fulfilled \<rparr>) else s)"
| "step s (ScriptLoadRejected e) =
     (if loadScriptPromise s = Pending
      then scriptFailed e (s \<lparr> loadScriptPromise := Rejected \<rparr>) else s)"
| "step s (RecordDelivered res) = wiredRecord res s"
| "step s (PageRefDelivered p) = wiredPageRef p s"
| "step s (ApiSet c) = s \<lparr> cfg := c \<rparr>"

definition run :: "event list \<Rightarrow> qr_code \<Rightarrow> qr_code" where
  "run es s = foldl step s es"

section \<open>The value modes, as the specification names them\<close>

text \<open>
  The specification speaks of three value-source modes with a fixed precedence, of the
  inputs that belong to each mode, and of a resolved value that is either a value or
  absent. These definitions follow its words; the theorems below compare them with the
  code's getters.
\<close>

datatype value_mode = RecordFieldMode | UrlParameterMode | ProvidedValueMode

definition active_mode :: "qr_code \<Rightarrow> value_mode" where
  "active_mode s =
     (if usesRecordField s then RecordFieldMode
      else if valueSource (cfg s) = JStr ''URL Parameter'' then UrlParameterMode
      else ProvidedValueMode)"

text \<open>The inputs of the selected mode; the inputs of the other two modes are left out.\<close>

definition selected_inputs ::
  "qr_code \<Rightarrow> record_snapshot option \<times> text_prop \<times> text_prop \<times> jsval" where
  "selected_inputs s =
     (case active_mode s of
        RecordFieldMode \<Rightarrow>
          (recordSnap s, objectApiName (cfg s), qrCodeValueFieldApiName (cfg s), JNull)
      | UrlParameterMode \<Rightarrow> (None, None, None, urlParamValue s)
      | ProvidedValueMode \<Rightarrow> (None, None, None, providedValue (cfg s)))"

text \<open>A missing or falsy value is "no value" at every stage: \<open>None\<close>.\<close>

definition present :: "jsval \<Rightarrow> jsval option" where
  "present v = (if truthy v then Some v else None)"

definition resolveValue_spec :: "qr_code \<Rightarrow> jsval option" where
  "resolveValue_spec s =
     (case active_mode s of
        RecordFieldMode \<Rightarrow>
          (case recordSnap s of
             None \<Rightarrow> None
           | Some r \<Rightarrow>
               (case getQualifiedFieldName s (qrCodeValueFieldApiName (cfg s)) of
                  None \<Rightarrow> None
                | Some q \<Rightarrow> (case r q of None \<Rightarrow> None | Some v \<Rightarrow> present v)))
      | UrlParameterMode \<Rightarrow> present (urlParamValue s)
      | ProvidedValueMode \<Rightarrow> present (providedValue (cfg s)))"

text \<open>Title resolution in the specification's words: the record's title is used when
  record-field mode is active and the snapshot holds a non-empty value at the qualified
  title field.\<close>

definition title_spec :: "qr_code \<Rightarrow> jsval" where
  "title_spec s =
     (if \<not> truthy (showTitle (cfg s)) then JNull
      else
        let static = js_or (titleStaticValue (cfg s)) (JStr ''QR Code'') in
        if usesRecordField s then
          (case recordSnap s of
             None \<Rightarrow> static
           | Some r \<Rightarrow>
               (case getQualifiedFieldName s (titleFieldApiName (cfg s)) of
                  None \<Rightarrow> static
                | Some q \<Rightarrow> if truthy (getFieldValue r q) then getFieldValue r q else static))
        else static)"

text \<open>
  Readiness in the specification's words. Its record-fetched flag is a flag of its own:
  a delivered snapshot sets it, a delivered error leaves it as it was, and it goes back to
  false when a new record id causes a re-fetch. \<open>recordFetched_spec\<close> is that flag after a
  list of events on a fresh instance, and \<open>isReady_spec\<close> is the specification's
  readiness, \<open>domMounted && scriptLoaded && (usesRecordField ? recordFetched : true)\<close>,
  with the two flags and the mode read off the component.
\<close>

fun recordFetched_step :: "jsval \<times> bool \<Rightarrow> event \<Rightarrow> jsval \<times> bool" where
  "recordFetched_step (rid, fetched) (RecordDelivered (WireData d)) = (rid, True)"
| "recordFetched_step (rid, fetched) (ApiSet c) =
     (recordId c, if recordId c = rid then fetched else False)"
| "recordFetched_step (rid, fetched) e = (rid, fetched)"

definition recordFetched_spec :: "event list \<Rightarrow> bool" where
  "recordFetched_spec es = snd (foldl recordFetched_step (recordId initial_config, False) es)"

definition isReady_spec :: "event list \<Rightarrow> bool" where
  "isReady_spec es =
     (domReady (run es initial_state) \<and> qrCodeLibLoaded (run es initial_state) \<and>
      (if usesRecordField (run es initial_state) then recordFetched_spec es else True))"

fun is_create_or_update :: "render_call \<Rightarrow> bool" where
  "is_create_or_update (NewQRCodeStyling h opts) = True"
| "is_create_or_update (Update h opts) = True"
| "is_create_or_update (Append h) = False"

section \<open>Scenarios and invariants\<close>

text \<open>Configurations and states the examples below start from: the default configuration
  with a provided value, and an instance that is mounted, has the library loaded and has
  the element \<open>.qrcode\<close> in its template, before anything is drawn.\<close>

definition provided_config :: "string \<Rightarrow> config" where
  "provided_config v = initial_config \<lparr> providedValue := JStr v \<rparr>"

definition ready_state :: "string \<Rightarrow> qr_code" where
  "ready_state v =
     initial_state \<lparr> cfg := provided_config v, qrCodeLibLoaded := True, domReady := True,
       scriptLoadStarted := True, qrDiv := Some [], loadScriptPromise := Fulfilled,
       loadScriptCalls := 1 \<rparr>"

text \<open>The events that draw the provided value \<open>ABC123\<close> on a fresh instance.\<close>

definition drawn_events :: "event list" where
  "drawn_events =
     [ApiSet (provided_config ''ABC123''), Connected, ScriptLoadResolved, MountInserted,
      Rendered]"

text \<open>The handle names an instance that a \<open>new QRCodeStyling\<close> call has made.\<close>

fun call_handle :: "render_call \<Rightarrow> nat" where
  "call_handle (NewQRCodeStyling h opts) = h"
| "call_handle (Append h) = h"
| "call_handle (Update h opts) = h"

definition handle_created :: "qr_code \<Rightarrow> bool" where
  "handle_created s =
     (case qrCodeInstance s of
        None \<Rightarrow> True
      | Some h \<Rightarrow> (\<exists>c \<in> set (renderer s). is_create c \<and> call_handle c = h))"

text \<open>A record page for an \<open>Account\<close> whose \<open>Name\<close> is the value, and the events that
  draw the name \<open>Acme\<close> there.\<close>

definition record_config :: config where
  "record_config =
     initial_config \<lparr> recordId := JStr ''001'', objectApiName := Some ''Account'',
       qrCodeValueFieldApiName := Some ''Name'' \<rparr>"

definition record_drawn_events :: "event list" where
  "record_drawn_events =
     [ApiSet record_config, Connected, ScriptLoadResolved, MountInserted, Rendered,
      RecordDelivered (WireData [''Account.Name'' \<mapsto> JStr ''Acme''])]"

text \<open>What holds of the script load throughout an instance's life: \<open>loadScript\<close> is
  called once, when the load is started; the library counts as loaded exactly when the
  promise is fulfilled; and until then nothing is drawn.\<close>

definition load_inv :: "qr_code \<Rightarrow> bool" where
  "load_inv s =
     (scriptLoadStarted s = (loadScriptPromise s \<noteq> NotStarted) \<and>
      loadScriptCalls s = (if scriptLoadStarted s then 1 else 0) \<and>
      qrCodeLibLoaded s = (loadScriptPromise s = Fulfilled) \<and>
      (\<not> qrCodeLibLoaded s \<longrightarrow> renderer s = [] \<and> qrCodeInstance s = None))"

section \<open>Earlier iterations of the component\<close>

text \<open>
  The repository also holds earlier iterations of the same component. The properties
  below are proved of the latest one, with its three value modes, defined above. Of the
  earlier ones, these are the functions whose behaviour differs: the field qualifier and the
  corner style of \<open>force-app/main/default/lwc/qrCode/qrCode.js\<close>, which defaults a missing
  field name to \<open>Id\<close> and calls \<open>toLowerCase\<close> on the style unguarded (a \<open>TypeError\<close>
  on anything but a string), and the readiness getter and the draw step of the iteration
  with a static value, which never clears what it drew.
\<close>

datatype js_error = TypeError

definition getQualifiedFieldName_v1 :: "text_prop \<Rightarrow> text_prop \<Rightarrow> string option" where
  "getQualifiedFieldName_v1 obj fieldName =
     (let field = trim (text_or fieldName ''Id'') in
      if \<not> truthy_text obj then None
      else Some (the obj @ ''.'' @ field))"

definition corner_type_v1 :: "jsval \<Rightarrow> js_error + jsval" where
  "corner_type_v1 style =
     (if style = JStr ''None'' then Inr JUndefined
      else (case style of JStr t \<Rightarrow> Inr (JStr (toLowerCase t)) | _ \<Rightarrow> Inl TypeError))"

text \<open>The iteration with a static value: \<open>qrCodeStaticValue\<close> is its public property in
  the place of \<open>valueSource\<close>, \<open>providedValue\<close> and \<open>urlParamName\<close>.\<close>

definition qrValueResolved_v2 :: "jsval \<Rightarrow> qr_code \<Rightarrow> jsval" where
  "qrValueResolved_v2 qrCodeStaticValue s =
     (if \<not> usesRecordField s then js_or qrCodeStaticValue JNull
      else
        (case recordSnap s of
           None \<Rightarrow> JNull
         | Some r \<Rightarrow>
             (case getQualifiedFieldName s (qrCodeValueFieldApiName (cfg s)) of
                Some qualified \<Rightarrow> getFieldValue r qualified
              | None \<Rightarrow> JNull)))"

definition isReadyToRender_v2 :: "jsval \<Rightarrow> qr_code \<Rightarrow> bool" where
  "isReadyToRender_v2 qrCodeStaticValue s =
     (if \<not> domReady s \<or> \<not> qrCodeLibLoaded s then False
      else if \<not> usesRecordField s then truthy qrCodeStaticValue
      else recordSnap s \<noteq> None)"

definition tryRenderOrUpdateQr_v2 :: "jsval \<Rightarrow> qr_code \<Rightarrow> qr_code" where
  "tryRenderOrUpdateQr_v2 qrCodeStaticValue s =
     (if \<not> isReadyToRender_v2 qrCodeStaticValue s then s
      else
        let val = qrValueResolved_v2 qrCodeStaticValue s in
        if \<not> truthy val then s
        else
          (case qrDiv s of
             None \<Rightarrow> s
           | Some children \<Rightarrow>
               let options = buildOptions s val in
               (case qrCodeInstance s of
                  None \<Rightarrow>
                    s \<lparr> qrDiv := Some [nextInstance s],
                        qrCodeInstance := Some (nextInstance s),
                        nextInstance := Suc (nextInstance s),
                        renderer := renderer s @
                          [NewQRCodeStyling (nextInstance s) options,
                           Append (nextInstance s)] \<rparr>
                | Some h \<Rightarrow> s \<lparr> renderer := renderer s @ [Update h options] \<rparr>)))"

section \<open>Strings\<close>

lemma trim_Nil [simp]: "trim [] = []"
  by (simp add: trim_def)

lemma text_or_empty_Nil: "text_or t '''' = [] \<longleftrightarrow> \<not> truthy_text t"
  by (cases t) auto

text \<open>\<open>trim\<close> cuts white space off both ends and nothing else.\<close>

lemma trim_decomp:
  "\<exists>a b. f = a @ trim f @ b \<and> (\<forall>c \<in> set a. is_space c) \<and> (\<forall>c \<in> set b. is_space c)"
proof -
  let ?a = "takeWhile is_space f"
  let ?m = "dropWhile is_space f"
  let ?b = "rev (takeWhile is_space (rev ?m))"
  have "f = ?a @ ?m" by simp
  moreover have "?m = trim f @ ?b"
    unfolding trim_def
    by (metis rev_append rev_rev_ident takeWhile_dropWhile_id)
  moreover have "\<forall>c \<in> set ?a. is_space c" by (auto dest: set_takeWhileD)
  moreover have "\<forall>c \<in> set ?b. is_space c" by (auto dest: set_takeWhileD)
  ultimately show ?thesis by metis
qed

lemma trim_ends:
  assumes ne: "trim f \<noteq> []"
  shows "\<not> is_space (hd (trim f)) \<and> \<not> is_space (last (trim f))"
proof -
  let ?m = "dropWhile is_space f"
  let ?r = "dropWhile is_space (rev ?m)"
  have t: "trim f = rev ?r" by (simp add: trim_def)
  with ne have rne: "?r \<noteq> []" by simp
  then have "\<not> is_space (hd ?r)" by (rule hd_dropWhile)
  then have l: "\<not> is_space (last (trim f))" using rne t by (simp add: last_rev)
  have mne: "?m \<noteq> []"
  proof
    assume "?m = []"
    then have "?r = []" by (simp only: rev.simps(1) dropWhile.simps(1))
    with rne show False by blast
  qed
  then have hm: "\<not> is_space (hd ?m)" by (rule hd_dropWhile)
  have "hd (trim f) = last ?r" using rne t by (simp add: hd_rev)
  also have "last ?r = last (rev ?m)"
    using rne by (metis last_appendR takeWhile_dropWhile_id)
  also have "\<dots> = hd ?m" using mne by (simp add: last_rev)
  finally show ?thesis using hm l by simp
qed

section \<open>The field qualifier\<close>

text \<open>
  Claim C7. For every object type and field name, \<open>getQualifiedFieldName\<close> trims the
  field name, returns \<open>null\<close> when the trimmed name is empty or the object type is absent
  (\<open>undefined\<close>, \<open>null\<close> or the empty string), and returns the string
  \<open>objectType.trimmedField\<close> otherwise. It is a function of the object type and the field
  name alone and changes nothing: it returns a value, not a state.
\<close>

theorem getQualifiedFieldName_contract:
  "getQualifiedFieldName s fieldName =
     (case (objectApiName (cfg s), fieldName) of
        (Some obj, Some f) \<Rightarrow>
          if obj = [] \<or> trim f = [] then None else Some (obj @ ''.'' @ trim f)
      | _ \<Rightarrow> None)"
  by (cases "objectApiName (cfg s)"; cases fieldName)
     (simp_all add: getQualifiedFieldName_def Let_def)

text \<open>On an \<open>Account\<close> page the field name \<open>Name\<close>, with blanks around it, is
  qualified as \<open>Account.Name\<close>; a blank field name and a missing object type give
  \<open>null\<close>.\<close>

theorem getQualifiedFieldName_contract_witness:
  "getQualifiedFieldName
     (initial_state \<lparr> cfg := initial_config \<lparr> objectApiName := Some ''Account'' \<rparr> \<rparr>)
     (Some ''  Name '') = Some ''Account.Name'' \<and>
   getQualifiedFieldName
     (initial_state \<lparr> cfg := initial_config \<lparr> objectApiName := Some ''Account'' \<rparr> \<rparr>)
     (Some ''   '') = None \<and>
   getQualifiedFieldName initial_state (Some ''Name'') = None"
proof -
  let ?a = "initial_state \<lparr> cfg := initial_config \<lparr> objectApiName := Some ''Account'' \<rparr> \<rparr>"
  have t: "trim ''  Name '' = ''Name''" "trim ''   '' = []"
    by (simp_all add: trim_def is_space_def)
  have 1: "getQualifiedFieldName ?a (Some ''  Name '') = Some ''Account.Name''"
    using getQualifiedFieldName_contract [of ?a "Some ''  Name ''"] t by simp
  have 2: "getQualifiedFieldName ?a (Some ''   '') = None"
    using getQualifiedFieldName_contract [of ?a "Some ''   ''"] t by simp
  have 3: "getQualifiedFieldName initial_state (Some ''Name'') = None"
    using getQualifiedFieldName_contract [of initial_state "Some ''Name''"]
    by (simp add: initial_state_def initial_config_def)
  from 1 2 3 show ?thesis by simp
qed

lemma getQualifiedFieldName_cong:
  "objectApiName (cfg s) = objectApiName (cfg s') \<Longrightarrow>
   getQualifiedFieldName s f = getQualifiedFieldName s' f"
  by (simp add: getQualifiedFieldName_def Let_def)

text \<open>The qualifier of the earliest iteration names the field \<open>Id\<close> where the latest one
  returns \<open>null\<close>.\<close>

lemma getQualifiedFieldName_v1_default:
  "getQualifiedFieldName_v1 (Some ''Account'') None = Some ''Account.Id''"
  by (simp add: getQualifiedFieldName_v1_def trim_def is_space_def)

section \<open>Value resolution\<close>

lemma present_js_or_null: "present (js_or v JNull) = present v"
  by (simp add: present_def js_or_def)

lemma qrValueResolved_refines: "present (qrValueResolved s) = resolveValue_spec s"
proof (cases "active_mode s")
  case RecordFieldMode
  then have u: "usesRecordField s"
    by (simp add: active_mode_def split: if_splits)
  show ?thesis
  proof (cases "recordSnap s")
    case None
    with u RecordFieldMode show ?thesis
      by (simp add: qrValueResolved_def resolveValue_spec_def present_def)
  next
    case (Some r)
    show ?thesis
    proof (cases "getQualifiedFieldName s (qrCodeValueFieldApiName (cfg s))")
      case None
      with u RecordFieldMode Some show ?thesis
        by (simp add: qrValueResolved_def resolveValue_spec_def present_def)
    next
      case q: (Some q)
      with u RecordFieldMode Some show ?thesis
        by (cases "r q")
           (simp_all add: qrValueResolved_def resolveValue_spec_def getFieldValue_def
              present_def)
    qed
  qed
next
  case UrlParameterMode
  then have "\<not> usesRecordField s" "valueSource (cfg s) = JStr ''URL Parameter''"
    by (simp_all add: active_mode_def split: if_splits)
  with UrlParameterMode show ?thesis
    by (simp add: qrValueResolved_def resolveValue_spec_def present_js_or_null)
next
  case ProvidedValueMode
  then have "\<not> usesRecordField s" "valueSource (cfg s) \<noteq> JStr ''URL Parameter''"
    by (simp_all add: active_mode_def split: if_splits)
  with ProvidedValueMode show ?thesis
    by (simp add: qrValueResolved_def resolveValue_spec_def present_js_or_null)
qed

lemma qrValueResolved_selected:
  assumes "active_mode s = active_mode s'" and "selected_inputs s = selected_inputs s'"
  shows "qrValueResolved s = qrValueResolved s'"
proof (cases "active_mode s")
  case RecordFieldMode
  with assms have u: "usesRecordField s" "usesRecordField s'"
    by (auto simp: active_mode_def split: if_splits)
  from assms RecordFieldMode have
    "recordSnap s = recordSnap s'" "objectApiName (cfg s) = objectApiName (cfg s')"
    "qrCodeValueFieldApiName (cfg s) = qrCodeValueFieldApiName (cfg s')"
    by (simp_all add: selected_inputs_def)
  moreover have "getQualifiedFieldName s (qrCodeValueFieldApiName (cfg s)) =
      getQualifiedFieldName s' (qrCodeValueFieldApiName (cfg s'))"
    using calculation getQualifiedFieldName_cong [of s s'] by simp
  ultimately show ?thesis using u
    by (simp add: qrValueResolved_def split: option.splits)
next
  case UrlParameterMode
  with assms have u: "\<not> usesRecordField s" "\<not> usesRecordField s'"
    "valueSource (cfg s) = JStr ''URL Parameter''" "valueSource (cfg s') = JStr ''URL Parameter''"
    by (auto simp: active_mode_def split: if_splits)
  from assms UrlParameterMode have "urlParamValue s = urlParamValue s'"
    by (simp add: selected_inputs_def)
  with u show ?thesis by (simp add: qrValueResolved_def)
next
  case ProvidedValueMode
  with assms have u: "\<not> usesRecordField s" "\<not> usesRecordField s'"
    "valueSource (cfg s) \<noteq> JStr ''URL Parameter''" "valueSource (cfg s') \<noteq> JStr ''URL Parameter''"
    by (auto simp: active_mode_def split: if_splits)
  from assms ProvidedValueMode have "providedValue (cfg s) = providedValue (cfg s')"
    by (simp add: selected_inputs_def)
  with u show ?thesis by (simp add: qrValueResolved_def)
qed

text \<open>
  Claim C1. Exactly one value-source mode determines the resolved value, by a fixed
  precedence. When \<open>recordId\<close>, \<open>objectApiName\<close> and \<open>qrCodeValueFieldApiName\<close> are all
  present, \<open>qrValueResolved\<close> reads the record snapshot at the qualified value field:
  \<open>null\<close> without a snapshot or a qualified name, and what \<open>getFieldValue\<close> answers
  otherwise. Otherwise, when \<open>valueSource\<close> is \<open>URL Parameter\<close>, it is the cached URL
  parameter value, and otherwise the provided value, each \<open>null\<close> when blank. Read as
  "a value, or none" (a falsy result is no value), the result is the specification's:
  none without a snapshot and for an absent or empty field. Two states in the same mode
  that agree on the inputs of that mode resolve to the same value, whatever the inputs of
  the other modes are.
\<close>

theorem value_source_precedence:
  "(usesRecordField s \<longrightarrow>
      active_mode s = RecordFieldMode \<and>
      qrValueResolved s =
        (case recordSnap s of
           None \<Rightarrow> JNull
         | Some r \<Rightarrow>
             (case getQualifiedFieldName s (qrCodeValueFieldApiName (cfg s)) of
                None \<Rightarrow> JNull
              | Some q \<Rightarrow> getFieldValue r q))) \<and>
   (\<not> usesRecordField s \<and> valueSource (cfg s) = JStr ''URL Parameter'' \<longrightarrow>
      active_mode s = UrlParameterMode \<and> qrValueResolved s = js_or (urlParamValue s) JNull) \<and>
   (\<not> usesRecordField s \<and> valueSource (cfg s) \<noteq> JStr ''URL Parameter'' \<longrightarrow>
      active_mode s = ProvidedValueMode \<and>
      qrValueResolved s = js_or (providedValue (cfg s)) JNull) \<and>
   present (qrValueResolved s) = resolveValue_spec s \<and>
   (\<forall>s'. active_mode s' = active_mode s \<and> selected_inputs s' = selected_inputs s \<longrightarrow>
      qrValueResolved s' = qrValueResolved s)"
proof (intro conjI impI allI)
  assume "usesRecordField s"
  then show "active_mode s = RecordFieldMode" by (simp add: active_mode_def)
  from \<open>usesRecordField s\<close> show "qrValueResolved s =
        (case recordSnap s of
           None \<Rightarrow> JNull
         | Some r \<Rightarrow>
             (case getQualifiedFieldName s (qrCodeValueFieldApiName (cfg s)) of
                None \<Rightarrow> JNull
              | Some q \<Rightarrow> getFieldValue r q))"
    by (simp add: qrValueResolved_def split: option.splits)
next
  assume a: "\<not> usesRecordField s \<and> valueSource (cfg s) = JStr ''URL Parameter''"
  then show "active_mode s = UrlParameterMode" by (simp add: active_mode_def)
  from a show "qrValueResolved s = js_or (urlParamValue s) JNull"
    by (simp add: qrValueResolved_def)
next
  assume a: "\<not> usesRecordField s \<and> valueSource (cfg s) \<noteq> JStr ''URL Parameter''"
  then show "active_mode s = ProvidedValueMode" by (simp add: active_mode_def)
  from a show "qrValueResolved s = js_or (providedValue (cfg s)) JNull"
    by (simp add: qrValueResolved_def)
next
  show "present (qrValueResolved s) = resolveValue_spec s"
    by (rule qrValueResolved_refines)
next
  fix s'
  assume "active_mode s' = active_mode s \<and> selected_inputs s' = selected_inputs s"
  then show "qrValueResolved s' = qrValueResolved s"
    using qrValueResolved_selected [of s' s] by simp
qed

text \<open>
  The three modes at work. On a record page for an \<open>Account\<close> whose \<open>Name\<close> is
  \<open>Acme\<close> the value is \<open>Acme\<close>, whatever the provided value and the URL parameter are;
  with \<open>valueSource = URL Parameter\<close> and no record id it is the cached parameter; with
  the default configuration it is the provided value, and a cached parameter and a
  snapshot left behind do not change it.
\<close>

theorem value_source_precedence_witness:
  "usesRecordField
     (initial_state \<lparr> cfg := initial_config \<lparr> recordId := JStr ''001'',
          objectApiName := Some ''Account'', qrCodeValueFieldApiName := Some '' Name'',
          providedValue := JStr ''ABC123'' \<rparr>,
        recordSnap := Some [''Account.Name'' \<mapsto> JStr ''Acme''],
        urlParamValue := JStr ''XYZ'' \<rparr>) \<and>
   qrValueResolved
     (initial_state \<lparr> cfg := initial_config \<lparr> recordId := JStr ''001'',
          objectApiName := Some ''Account'', qrCodeValueFieldApiName := Some '' Name'',
          providedValue := JStr ''ABC123'' \<rparr>,
        recordSnap := Some [''Account.Name'' \<mapsto> JStr ''Acme''],
        urlParamValue := JStr ''XYZ'' \<rparr>) = JStr ''Acme'' \<and>
   qrValueResolved
     (initial_state \<lparr> cfg := initial_config \<lparr> valueSource := JStr ''URL Parameter'',
          providedValue := JStr ''ABC123'' \<rparr>,
        urlParamValue := JStr ''XYZ'' \<rparr>) = JStr ''XYZ'' \<and>
   qrValueResolved
     (initial_state \<lparr> cfg := initial_config \<lparr> providedValue := JStr ''ABC123'' \<rparr> \<rparr>)
     = JStr ''ABC123'' \<and>
   qrValueResolved
     (initial_state \<lparr> cfg := initial_config \<lparr> providedValue := JStr ''ABC123'' \<rparr>,
        recordSnap := Some [''Account.Name'' \<mapsto> JStr ''Acme''],
        urlParamValue := JStr ''XYZ'' \<rparr>) = JStr ''ABC123''"
proof -
  let ?r = "initial_state \<lparr> cfg := initial_config \<lparr> recordId := JStr ''001'',
          objectApiName := Some ''Account'', qrCodeValueFieldApiName := Some '' Name'',
          providedValue := JStr ''ABC123'' \<rparr>,
        recordSnap := Some [''Account.Name'' \<mapsto> JStr ''Acme''],
        urlParamValue := JStr ''XYZ'' \<rparr>"
  let ?u = "initial_state \<lparr> cfg := initial_config \<lparr> valueSource := JStr ''URL Parameter'',
          providedValue := JStr ''ABC123'' \<rparr>,
        urlParamValue := JStr ''XYZ'' \<rparr>"
  let ?p = "initial_state \<lparr> cfg := initial_config \<lparr> providedValue := JStr ''ABC123'' \<rparr> \<rparr>"
  let ?p' = "initial_state \<lparr> cfg := initial_config \<lparr> providedValue := JStr ''ABC123'' \<rparr>,
        recordSnap := Some [''Account.Name'' \<mapsto> JStr ''Acme''],
        urlParamValue := JStr ''XYZ'' \<rparr>"
  have ur: "usesRecordField ?r"
    by (simp add: usesRecordField_def initial_config_def)
  have qn: "getQualifiedFieldName ?r (qrCodeValueFieldApiName (cfg ?r)) = Some ''Account.Name''"
    by (simp add: getQualifiedFieldName_def trim_def is_space_def initial_config_def)
  have r: "qrValueResolved ?r = JStr ''Acme''"
    using value_source_precedence [of ?r] ur qn by (simp add: getFieldValue_def)
  have uu: "\<not> usesRecordField ?u \<and> valueSource (cfg ?u) = JStr ''URL Parameter''"
    by (simp add: usesRecordField_def initial_config_def)
  have u: "qrValueResolved ?u = JStr ''XYZ''"
    using value_source_precedence [of ?u] uu by (simp add: js_or_def)
  have up: "\<not> usesRecordField ?p \<and> valueSource (cfg ?p) \<noteq> JStr ''URL Parameter''"
    by (simp add: usesRecordField_def initial_config_def)
  have p: "qrValueResolved ?p = JStr ''ABC123''"
    using value_source_precedence [of ?p] up by (simp add: js_or_def initial_config_def)
  have same: "active_mode ?p' = active_mode ?p \<and> selected_inputs ?p' = selected_inputs ?p"
    by (simp add: active_mode_def selected_inputs_def usesRecordField_def initial_config_def)
  have p': "qrValueResolved ?p' = qrValueResolved ?p"
    using value_source_precedence [of ?p] same by blast
  from ur r u p p' show ?thesis by simp
qed

section \<open>The options builder\<close>

lemma corner_type_omitted:
  "style = JStr ''None'' \<or> \<not> truthy style \<Longrightarrow> corner_type style = JUndefined"
  by (auto simp: corner_type_def opt_toLowerCase_def js_or_def)

lemma corner_type_lowercased:
  "t \<noteq> [] \<Longrightarrow> t \<noteq> ''None'' \<Longrightarrow> corner_type (JStr t) = JStr (toLowerCase t)"
  by (simp add: corner_type_def opt_toLowerCase_def js_or_def)

lemma corner_type_not_string:
  "\<forall>t. style \<noteq> JStr t \<Longrightarrow> corner_type style = JUndefined"
  by (cases style) (simp_all add: corner_type_def opt_toLowerCase_def js_or_def)

lemma buildOptions_cornersSquare:
  "type (cornersSquareOptions (buildOptions s d)) = corner_type (cornersSquareStyle (cfg s))"
  by (simp add: buildOptions_def Let_def)

lemma buildOptions_cornersDot:
  "type (cornersDotOptions (buildOptions s d)) = corner_type (cornersDotStyle (cfg s))"
  by (simp add: buildOptions_def Let_def)

text \<open>
  Claim C6. In the options that \<open>buildOptions\<close> returns, the type of the corner squares
  and the type of the corner dots are \<open>undefined\<close> whenever the configured style is the
  sentinel \<open>None\<close> or is absent (\<open>undefined\<close>, \<open>null\<close>, the empty string or any other
  falsy value); for any other non-empty style string the type is that string in lower
  case.
\<close>

theorem corner_style_fields:
  "(cornersSquareStyle (cfg s) = JStr ''None'' \<or> \<not> truthy (cornersSquareStyle (cfg s)) \<longrightarrow>
      type (cornersSquareOptions (buildOptions s d)) = JUndefined) \<and>
   (\<forall>t. cornersSquareStyle (cfg s) = JStr t \<and> t \<noteq> [] \<and> t \<noteq> ''None'' \<longrightarrow>
      type (cornersSquareOptions (buildOptions s d)) = JStr (toLowerCase t)) \<and>
   (cornersDotStyle (cfg s) = JStr ''None'' \<or> \<not> truthy (cornersDotStyle (cfg s)) \<longrightarrow>
      type (cornersDotOptions (buildOptions s d)) = JUndefined) \<and>
   (\<forall>t. cornersDotStyle (cfg s) = JStr t \<and> t \<noteq> [] \<and> t \<noteq> ''None'' \<longrightarrow>
      type (cornersDotOptions (buildOptions s d)) = JStr (toLowerCase t))"
  by (simp add: buildOptions_cornersSquare buildOptions_cornersDot corner_type_omitted
      corner_type_lowercased)

text \<open>A square style \<open>Extra-Rounded\<close> becomes \<open>extra-rounded\<close> and a dot style
  \<open>None\<close> is omitted; an absent square style is omitted and a dot style \<open>Dot\<close> becomes
  \<open>dot\<close>.\<close>

theorem corner_style_fields_witness:
  "type (cornersSquareOptions (buildOptions
      (initial_state \<lparr> cfg := initial_config \<lparr> cornersSquareStyle := JStr ''Extra-Rounded'',
         cornersDotStyle := JStr ''None'' \<rparr> \<rparr>) (JStr ''ABC123''))) = JStr ''extra-rounded'' \<and>
   type (cornersDotOptions (buildOptions
      (initial_state \<lparr> cfg := initial_config \<lparr> cornersSquareStyle := JStr ''Extra-Rounded'',
         cornersDotStyle := JStr ''None'' \<rparr> \<rparr>) (JStr ''ABC123''))) = JUndefined \<and>
   type (cornersSquareOptions (buildOptions
      (initial_state \<lparr> cfg := initial_config \<lparr> cornersDotStyle := JStr ''Dot'' \<rparr> \<rparr>)
      (JStr ''ABC123''))) = JUndefined \<and>
   type (cornersDotOptions (buildOptions
      (initial_state \<lparr> cfg := initial_config \<lparr> cornersDotStyle := JStr ''Dot'' \<rparr> \<rparr>)
      (JStr ''ABC123''))) = JStr ''dot''"
proof -
  let ?a = "initial_state \<lparr> cfg := initial_config \<lparr> cornersSquareStyle := JStr ''Extra-Rounded'',
         cornersDotStyle := JStr ''None'' \<rparr> \<rparr>"
  let ?b = "initial_state \<lparr> cfg := initial_config \<lparr> cornersDotStyle := JStr ''Dot'' \<rparr> \<rparr>"
  have l1: "toLowerCase ''Extra-Rounded'' = ''extra-rounded''" by code_simp
  have l2: "toLowerCase ''Dot'' = ''dot''" by code_simp
  have a: "cornersSquareStyle (cfg ?a) = JStr ''Extra-Rounded''"
    "cornersDotStyle (cfg ?a) = JStr ''None''"
    by simp_all
  have b: "\<not> truthy (cornersSquareStyle (cfg ?b))" "cornersDotStyle (cfg ?b) = JStr ''Dot''"
    by (simp_all add: initial_config_def)
  from corner_style_fields [of ?a "JStr ''ABC123''"] a l1
  have ra: "type (cornersSquareOptions (buildOptions ?a (JStr ''ABC123''))) = JStr ''extra-rounded''"
    "type (cornersDotOptions (buildOptions ?a (JStr ''ABC123''))) = JUndefined"
    by simp_all
  from corner_style_fields [of ?b "JStr ''ABC123''"] b l2
  have rb: "type (cornersSquareOptions (buildOptions ?b (JStr ''ABC123''))) = JUndefined"
    "type (cornersDotOptions (buildOptions ?b (JStr ''ABC123''))) = JStr ''dot''"
    by simp_all
  from ra rb show ?thesis by simp
qed

text \<open>A truthy style that is not a string has no \<open>toLowerCase\<close>: the type is omitted
  too.\<close>

lemma corner_style_not_string:
  "\<forall>t. cornersSquareStyle (cfg s) \<noteq> JStr t \<Longrightarrow>
     type (cornersSquareOptions (buildOptions s d)) = JUndefined"
  by (simp add: buildOptions_cornersSquare corner_type_not_string)

text \<open>The earliest iteration lowercases the style unguarded: it agrees on the sentinel and
  on non-empty strings and raises a \<open>TypeError\<close> for an absent style.\<close>

lemma corner_type_v1_agrees:
  "t \<noteq> [] \<Longrightarrow> corner_type_v1 (JStr t) = Inr (corner_type (JStr t))"
  by (simp add: corner_type_v1_def corner_type_def opt_toLowerCase_def js_or_def)

lemma corner_type_v1_absent:
  "corner_type_v1 JUndefined = Inl TypeError \<and> corner_type_v1 JNull = Inl TypeError"
  by (simp add: corner_type_v1_def)

lemma buildOptions_image:
  "truthy (logoUrl (cfg s)) \<Longrightarrow>
     image (buildOptions s d) = Some (logoUrl (cfg s)) \<and>
     imageOptions (buildOptions s d) =
       Some \<lparr> crossOrigin = ''anonymous'',
              margin = js_or (logoImageMargin (cfg s)) (JNum 5),
              imageSize = js_or (logoImageSize (cfg s)) (JNum (1 / 2)),
              hideBackgroundDots = True \<rparr>"
  by (simp add: buildOptions_def Let_def)

lemma buildOptions_no_image:
  "\<not> truthy (logoUrl (cfg s)) \<Longrightarrow>
     image (buildOptions s d) = None \<and> imageOptions (buildOptions s d) = None"
  by (simp add: buildOptions_def Let_def)

lemma js_or_truthy: "truthy b \<Longrightarrow> truthy (js_or a b)"
  by (simp add: js_or_def)

text \<open>
  Claim C10. When a logo is configured, the image options carry the configured margin and
  relative image size, except that a falsy one (\<open>0\<close> among them) is replaced by the
  default, \<open>5\<close> for the margin and \<open>0.5\<close> for the size: a margin or a size of \<open>0\<close> never
  appears in the options. When no logo is configured, \<open>image\<close> and \<open>imageOptions\<close> are
  absent from the options.
\<close>

theorem logo_options:
  "(truthy (logoUrl (cfg s)) \<longrightarrow>
      image (buildOptions s d) = Some (logoUrl (cfg s)) \<and>
      (\<exists>io. imageOptions (buildOptions s d) = Some io \<and>
         crossOrigin io = ''anonymous'' \<and> hideBackgroundDots io \<and>
         margin io =
           (if truthy (logoImageMargin (cfg s)) then logoImageMargin (cfg s) else JNum 5) \<and>
         imageSize io =
           (if truthy (logoImageSize (cfg s)) then logoImageSize (cfg s) else JNum (1 / 2)) \<and>
         (logoImageMargin (cfg s) = JNum 0 \<longrightarrow> margin io = JNum 5) \<and>
         (logoImageSize (cfg s) = JNum 0 \<longrightarrow> imageSize io = JNum (1 / 2)) \<and>
         margin io \<noteq> JNum 0 \<and> imageSize io \<noteq> JNum 0 \<and>
         truthy (margin io) \<and> truthy (imageSize io))) \<and>
   (\<not> truthy (logoUrl (cfg s)) \<longrightarrow>
      image (buildOptions s d) = None \<and> imageOptions (buildOptions s d) = None)"
proof (intro conjI impI)
  assume l: "truthy (logoUrl (cfg s))"
  let ?io = "\<lparr> crossOrigin = ''anonymous'',
              margin = js_or (logoImageMargin (cfg s)) (JNum 5),
              imageSize = js_or (logoImageSize (cfg s)) (JNum (1 / 2)),
              hideBackgroundDots = True \<rparr>"
  from l show "image (buildOptions s d) = Some (logoUrl (cfg s))"
    by (simp add: buildOptions_image)
  have io: "imageOptions (buildOptions s d) = Some ?io"
    using l by (simp add: buildOptions_image)
  have tm: "truthy (margin ?io)" and ts: "truthy (imageSize ?io)"
    by (simp_all add: js_or_truthy)
  have "margin ?io \<noteq> JNum 0" "imageSize ?io \<noteq> JNum 0"
    using tm ts by auto
  with io tm ts show "\<exists>io. imageOptions (buildOptions s d) = Some io \<and>
         crossOrigin io = ''anonymous'' \<and> hideBackgroundDots io \<and>
         margin io =
           (if truthy (logoImageMargin (cfg s)) then logoImageMargin (cfg s) else JNum 5) \<and>
         imageSize io =
           (if truthy (logoImageSize (cfg s)) then logoImageSize (cfg s) else JNum (1 / 2)) \<and>
         (logoImageMargin (cfg s) = JNum 0 \<longrightarrow> margin io = JNum 5) \<and>
         (logoImageSize (cfg s) = JNum 0 \<longrightarrow> imageSize io = JNum (1 / 2)) \<and>
         margin io \<noteq> JNum 0 \<and> imageSize io \<noteq> JNum 0 \<and>
         truthy (margin io) \<and> truthy (imageSize io)"
    by (intro exI [of _ ?io]) (simp add: js_or_def)
next
  assume "\<not> truthy (logoUrl (cfg s))"
  then show "image (buildOptions s d) = None" "imageOptions (buildOptions s d) = None"
    by (simp_all add: buildOptions_no_image)
qed

text \<open>With a logo, a margin of \<open>0\<close> and a size of \<open>0\<close>, the options carry \<open>5\<close> and
  \<open>0.5\<close>; with the default configuration they carry no image at all.\<close>

theorem logo_options_witness:
  "image (buildOptions
      (initial_state \<lparr> cfg := initial_config \<lparr> logoUrl := JStr ''/logo.png'',
         logoImageMargin := JNum 0, logoImageSize := JNum 0 \<rparr> \<rparr>) (JStr ''ABC123''))
     = Some (JStr ''/logo.png'') \<and>
   map_option margin (imageOptions (buildOptions
      (initial_state \<lparr> cfg := initial_config \<lparr> logoUrl := JStr ''/logo.png'',
         logoImageMargin := JNum 0, logoImageSize := JNum 0 \<rparr> \<rparr>) (JStr ''ABC123'')))
     = Some (JNum 5) \<and>
   map_option imageSize (imageOptions (buildOptions
      (initial_state \<lparr> cfg := initial_config \<lparr> logoUrl := JStr ''/logo.png'',
         logoImageMargin := JNum 0, logoImageSize := JNum 0 \<rparr> \<rparr>) (JStr ''ABC123'')))
     = Some (JNum (1 / 2)) \<and>
   image (buildOptions initial_state (JStr ''ABC123'')) = None \<and>
   imageOptions (buildOptions initial_state (JStr ''ABC123'')) = None"
proof -
  let ?a = "initial_state \<lparr> cfg := initial_config \<lparr> logoUrl := JStr ''/logo.png'',
         logoImageMargin := JNum 0, logoImageSize := JNum 0 \<rparr> \<rparr>"
  have a: "truthy (logoUrl (cfg ?a))" "logoImageMargin (cfg ?a) = JNum 0"
    "logoImageSize (cfg ?a) = JNum 0"
    by simp_all
  have b: "\<not> truthy (logoUrl (cfg initial_state))"
    by (simp add: initial_state_def initial_config_def)
  from logo_options [of ?a "JStr ''ABC123''"] a
  have ra: "image (buildOptions ?a (JStr ''ABC123'')) = Some (JStr ''/logo.png'')"
    "map_option margin (imageOptions (buildOptions ?a (JStr ''ABC123''))) = Some (JNum 5)"
    "map_option imageSize (imageOptions (buildOptions ?a (JStr ''ABC123''))) = Some (JNum (1 / 2))"
    by auto
  from logo_options [of initial_state "JStr ''ABC123''"] b
  have rb: "image (buildOptions initial_state (JStr ''ABC123'')) = None"
    "imageOptions (buildOptions initial_state (JStr ''ABC123'')) = None"
    by simp_all
  from ra rb show ?thesis by simp
qed

section \<open>Title resolution\<close>

lemma getQualifiedFieldName_blank:
  "\<not> truthy_text fieldName \<Longrightarrow> getQualifiedFieldName s fieldName = None"
  by (cases fieldName) (simp_all add: getQualifiedFieldName_def)

lemma title_cases:
  "title s =
     (if \<not> truthy (showTitle (cfg s)) then JNull
      else
        (case (recordSnap s, getQualifiedFieldName s (titleFieldApiName (cfg s))) of
           (Some r, Some q) \<Rightarrow>
             if truthy (getFieldValue r q) then getFieldValue r q
             else js_or (titleStaticValue (cfg s)) (JStr ''QR Code'')
         | _ \<Rightarrow> js_or (titleStaticValue (cfg s)) (JStr ''QR Code'')))"
proof (cases "truthy_text (titleFieldApiName (cfg s))")
  case True
  then show ?thesis
    by (simp add: title_def Let_def split: option.splits)
next
  case False
  then have "getQualifiedFieldName s (titleFieldApiName (cfg s)) = None"
    by (rule getQualifiedFieldName_blank)
  with False show ?thesis
    by (simp add: title_def Let_def split: option.splits)
qed

text \<open>
  Claim C8 as stated fails. With title display on, no record id (so record-field mode is
  not active), the object type \<open>Account\<close>, the title field \<open>Name\<close> and a snapshot that
  holds \<open>Acme\<close> there, the title is \<open>Acme\<close>, where the claim gives the static title
  \<open>QR Code\<close>: the getter asks for a snapshot and a title field, not for the mode.
\<close>

theorem title_mode_counterexample:
  "\<not> usesRecordField
      (initial_state \<lparr> cfg := initial_config \<lparr> showTitle := JBool True,
           objectApiName := Some ''Account'', titleFieldApiName := Some ''Name'' \<rparr>,
         recordSnap := Some [''Account.Name'' \<mapsto> JStr ''Acme''] \<rparr>) \<and>
   title
      (initial_state \<lparr> cfg := initial_config \<lparr> showTitle := JBool True,
           objectApiName := Some ''Account'', titleFieldApiName := Some ''Name'' \<rparr>,
         recordSnap := Some [''Account.Name'' \<mapsto> JStr ''Acme''] \<rparr>) = JStr ''Acme'' \<and>
   title_spec
      (initial_state \<lparr> cfg := initial_config \<lparr> showTitle := JBool True,
           objectApiName := Some ''Account'', titleFieldApiName := Some ''Name'' \<rparr>,
         recordSnap := Some [''Account.Name'' \<mapsto> JStr ''Acme''] \<rparr>) = JStr ''QR Code''"
  by (simp add: usesRecordField_def title_def title_spec_def initial_config_def
      getQualifiedFieldName_def trim_def is_space_def getFieldValue_def js_or_def Let_def)

text \<open>
  Claim C8, amended. If title display is disabled, the title is \<open>null\<close>. Otherwise, if
  a record snapshot is present and holds a non-empty value at the qualified title field,
  whether or not record-field mode is active, the title is that value. Otherwise the title
  is the configured static title, \<open>QR Code\<close> by default. Whenever record-field mode is
  active or there is no snapshot, this is the title the specification describes.
\<close>

theorem title_resolution:
  "title s =
     (if \<not> truthy (showTitle (cfg s)) then JNull
      else
        (case (recordSnap s, getQualifiedFieldName s (titleFieldApiName (cfg s))) of
           (Some r, Some q) \<Rightarrow>
             if truthy (getFieldValue r q) then getFieldValue r q
             else js_or (titleStaticValue (cfg s)) (JStr ''QR Code'')
         | _ \<Rightarrow> js_or (titleStaticValue (cfg s)) (JStr ''QR Code''))) \<and>
   (usesRecordField s \<or> recordSnap s = None \<longrightarrow> title s = title_spec s)"
proof
  show "title s =
     (if \<not> truthy (showTitle (cfg s)) then JNull
      else
        (case (recordSnap s, getQualifiedFieldName s (titleFieldApiName (cfg s))) of
           (Some r, Some q) \<Rightarrow>
             if truthy (getFieldValue r q) then getFieldValue r q
             else js_or (titleStaticValue (cfg s)) (JStr ''QR Code'')
         | _ \<Rightarrow> js_or (titleStaticValue (cfg s)) (JStr ''QR Code'')))"
    by (rule title_cases)
  show "usesRecordField s \<or> recordSnap s = None \<longrightarrow> title s = title_spec s"
  proof
    assume "usesRecordField s \<or> recordSnap s = None"
    then show "title s = title_spec s"
      by (auto simp: title_cases title_spec_def Let_def split: option.splits)
  qed
qed

text \<open>On a record page the record's name is the title; with no snapshot it is the static
  title \<open>Scan me\<close>; with title display off it is \<open>null\<close>.\<close>

theorem title_resolution_witness:
  "title
      (initial_state \<lparr> cfg := initial_config \<lparr> showTitle := JBool True,
           recordId := JStr ''001'', qrCodeValueFieldApiName := Some ''Name'',
           objectApiName := Some ''Account'', titleFieldApiName := Some ''Name'',
           titleStaticValue := JStr ''Scan me'' \<rparr>,
         recordSnap := Some [''Account.Name'' \<mapsto> JStr ''Acme''] \<rparr>) = JStr ''Acme'' \<and>
   title
      (initial_state \<lparr> cfg := initial_config \<lparr> showTitle := JBool True,
           titleStaticValue := JStr ''Scan me'' \<rparr> \<rparr>) = JStr ''Scan me'' \<and>
   title_spec
      (initial_state \<lparr> cfg := initial_config \<lparr> showTitle := JBool True,
           titleStaticValue := JStr ''Scan me'' \<rparr> \<rparr>) = JStr ''Scan me'' \<and>
   title initial_state = JNull"
proof -
  let ?a = "initial_state \<lparr> cfg := initial_config \<lparr> showTitle := JBool True,
           recordId := JStr ''001'', qrCodeValueFieldApiName := Some ''Name'',
           objectApiName := Some ''Account'', titleFieldApiName := Some ''Name'',
           titleStaticValue := JStr ''Scan me'' \<rparr>,
         recordSnap := Some [''Account.Name'' \<mapsto> JStr ''Acme''] \<rparr>"
  let ?b = "initial_state \<lparr> cfg := initial_config \<lparr> showTitle := JBool True,
           titleStaticValue := JStr ''Scan me'' \<rparr> \<rparr>"
  have qa: "getQualifiedFieldName ?a (titleFieldApiName (cfg ?a)) = Some ''Account.Name''"
    by (simp add: getQualifiedFieldName_def trim_def is_space_def)
  have a: "title ?a = JStr ''Acme''"
    using title_resolution [of ?a] qa by (simp add: getFieldValue_def)
  have nb: "recordSnap ?b = None" by (simp add: initial_state_def)
  have b: "title ?b = JStr ''Scan me''"
    using title_resolution [of ?b] nb by (simp add: js_or_def)
  have b': "title_spec ?b = JStr ''Scan me''"
    using title_resolution [of ?b] nb b by simp
  have c: "title initial_state = JNull"
    using title_resolution [of initial_state]
    by (simp add: initial_state_def initial_config_def)
  from a b b' c show ?thesis by simp
qed

section \<open>The readiness gate\<close>

lemma tryRenderOrUpdateQr_not_ready:
  "\<not> isReadyToRender s \<Longrightarrow> tryRenderOrUpdateQr s = s"
  by (simp add: tryRenderOrUpdateQr_def)

lemma tryRenderOrUpdateQr_no_mount:
  "qrDiv s = None \<Longrightarrow> tryRenderOrUpdateQr s = s"
  by (simp add: tryRenderOrUpdateQr_def)

lemma tryRenderOrUpdateQr_clear:
  "isReadyToRender s \<Longrightarrow> qrDiv s = Some ch \<Longrightarrow> \<not> truthy (qrValueResolved s) \<Longrightarrow>
   qrCodeInstance s = Some h \<Longrightarrow>
   tryRenderOrUpdateQr s = s \<lparr> qrDiv := Some [], qrCodeInstance := None \<rparr>"
  by (simp add: tryRenderOrUpdateQr_def)

lemma tryRenderOrUpdateQr_no_value:
  "\<not> truthy (qrValueResolved s) \<Longrightarrow> qrCodeInstance s = None \<Longrightarrow>
   tryRenderOrUpdateQr s = s"
  by (simp add: tryRenderOrUpdateQr_def split: option.splits)

lemma tryRenderOrUpdateQr_create:
  "isReadyToRender s \<Longrightarrow> qrDiv s = Some ch \<Longrightarrow> truthy (qrValueResolved s) \<Longrightarrow>
   qrCodeInstance s = None \<Longrightarrow>
   tryRenderOrUpdateQr s =
     s \<lparr> qrDiv := Some [nextInstance s],
         qrCodeInstance := Some (nextInstance s),
         nextInstance := Suc (nextInstance s),
         renderer := renderer s @
           [NewQRCodeStyling (nextInstance s) (buildOptions s (qrValueResolved s)),
            Append (nextInstance s)] \<rparr>"
  by (simp add: tryRenderOrUpdateQr_def Let_def)

lemma tryRenderOrUpdateQr_update:
  "isReadyToRender s \<Longrightarrow> qrDiv s = Some ch \<Longrightarrow> truthy (qrValueResolved s) \<Longrightarrow>
   qrCodeInstance s = Some h \<Longrightarrow>
   tryRenderOrUpdateQr s =
     s \<lparr> renderer := renderer s @ [Update h (buildOptions s (qrValueResolved s))] \<rparr>"
  by (simp add: tryRenderOrUpdateQr_def Let_def)

text \<open>The step changes the calls made on the library only when it is ready, finds the
  mount point and has a value.\<close>

lemma tryRenderOrUpdateQr_renderer:
  "renderer (tryRenderOrUpdateQr s) =
     renderer s @
       (if isReadyToRender s \<and> qrDiv s \<noteq> None \<and> truthy (qrValueResolved s) then
          (case qrCodeInstance s of
             None \<Rightarrow>
               [NewQRCodeStyling (nextInstance s) (buildOptions s (qrValueResolved s)),
                Append (nextInstance s)]
           | Some h \<Rightarrow> [Update h (buildOptions s (qrValueResolved s))])
        else [])"
  by (simp add: tryRenderOrUpdateQr_def Let_def split: option.splits)

text \<open>
  The readiness getter as the code has it: the conjunction of \<open>domReady\<close>,
  \<open>qrCodeLibLoaded\<close> and, in record-field mode only, the presence of the record snapshot.
  When it is false, \<open>tryRenderOrUpdateQr\<close> returns the state it was given. A call reaches
  the rendering library only when the getter holds and the resolved value is non-empty, and
  calls are only ever added after the earlier ones.
\<close>

theorem readiness_gate:
  "isReadyToRender s =
     (domReady s \<and> qrCodeLibLoaded s \<and> (if usesRecordField s then recordSnap s \<noteq> None else True)) \<and>
   (\<not> isReadyToRender s \<longrightarrow> tryRenderOrUpdateQr s = s) \<and>
   (renderer (tryRenderOrUpdateQr s) \<noteq> renderer s \<longrightarrow>
      isReadyToRender s \<and> truthy (qrValueResolved s)) \<and>
   (\<exists>new. renderer (tryRenderOrUpdateQr s) = renderer s @ new \<and>
      (new \<noteq> [] \<longrightarrow> isReadyToRender s \<and> truthy (qrValueResolved s)))"
proof (intro conjI impI)
  show "isReadyToRender s =
     (domReady s \<and> qrCodeLibLoaded s \<and> (if usesRecordField s then recordSnap s \<noteq> None else True))"
    by (auto simp: isReadyToRender_def)
next
  assume "\<not> isReadyToRender s"
  then show "tryRenderOrUpdateQr s = s" by (rule tryRenderOrUpdateQr_not_ready)
next
  assume "renderer (tryRenderOrUpdateQr s) \<noteq> renderer s"
  then show "isReadyToRender s" "truthy (qrValueResolved s)"
    by (simp_all add: tryRenderOrUpdateQr_renderer split: if_splits)
next
  show "\<exists>new. renderer (tryRenderOrUpdateQr s) = renderer s @ new \<and>
      (new \<noteq> [] \<longrightarrow> isReadyToRender s \<and> truthy (qrValueResolved s))"
    by (simp add: tryRenderOrUpdateQr_renderer)
qed

text \<open>A fresh instance is not ready and the step leaves it alone; a mounted instance with
  the library loaded and the provided value \<open>ABC123\<close> is ready, has a value, and the step
  calls the library.\<close>

theorem readiness_gate_witness:
  "\<not> isReadyToRender initial_state \<and>
   tryRenderOrUpdateQr initial_state = initial_state \<and>
   renderer (tryRenderOrUpdateQr (ready_state ''ABC123'')) \<noteq> renderer (ready_state ''ABC123'') \<and>
   isReadyToRender (ready_state ''ABC123'') \<and>
   truthy (qrValueResolved (ready_state ''ABC123''))"
proof -
  have n: "\<not> isReadyToRender initial_state"
    using readiness_gate [of initial_state] by (simp add: initial_state_def)
  then have i: "tryRenderOrUpdateQr initial_state = initial_state"
    using readiness_gate [of initial_state] by blast
  have c: "renderer (tryRenderOrUpdateQr (ready_state ''ABC123'')) \<noteq>
      renderer (ready_state ''ABC123'')"
    by (simp add: tryRenderOrUpdateQr_renderer ready_state_def provided_config_def
        initial_state_def initial_config_def isReadyToRender_def usesRecordField_def
        qrValueResolved_def js_or_def)
  then have "isReadyToRender (ready_state ''ABC123'') \<and>
      truthy (qrValueResolved (ready_state ''ABC123''))"
    using readiness_gate [of "ready_state ''ABC123''"] by blast
  with n i c show ?thesis by simp
qed

text \<open>
  Claim C5, evaluated where the code departs from it. On a record page the name \<open>Acme\<close>
  is drawn; up to there the readiness getter and the specification's readiness agree. Then
  the record fetch delivers an error. The component is mounted, the library is loaded,
  record-field mode is active and the record has been fetched, so the specification's
  readiness holds; but the getter reads the snapshot, which the error has dropped, and is
  false.
\<close>

theorem readiness_regresses_on_error:
  "isReady_spec record_drawn_events \<and>
   isReadyToRender (run record_drawn_events initial_state) \<and>
   domReady (run (record_drawn_events @ [RecordDelivered (WireError ''fetch failed'')])
     initial_state) \<and>
   qrCodeLibLoaded (run (record_drawn_events @ [RecordDelivered (WireError ''fetch failed'')])
     initial_state) \<and>
   usesRecordField (run (record_drawn_events @ [RecordDelivered (WireError ''fetch failed'')])
     initial_state) \<and>
   recordFetched_spec (record_drawn_events @ [RecordDelivered (WireError ''fetch failed'')]) \<and>
   isReady_spec (record_drawn_events @ [RecordDelivered (WireError ''fetch failed'')]) \<and>
   \<not> isReadyToRender
     (run (record_drawn_events @ [RecordDelivered (WireError ''fetch failed'')])
        initial_state)"
  by code_simp

text \<open>After the error the two notions of readiness differ.\<close>

theorem readiness_regresses_on_error_witness:
  "isReady_spec (record_drawn_events @ [RecordDelivered (WireError ''fetch failed'')]) \<noteq>
   isReadyToRender
     (run (record_drawn_events @ [RecordDelivered (WireError ''fetch failed'')])
        initial_state)"
  using readiness_regresses_on_error by blast

section \<open>What the draw step reads and what it writes\<close>

text \<open>Readiness, the resolved value and the options depend on the configuration, the
  snapshot, the cached URL parameter and the two flags; the step writes the mount point,
  the handle, the instance counter and the calls.\<close>

lemma usesRecordField_frame [simp]:
  "usesRecordField (s \<lparr> qrDiv := a \<rparr>) = usesRecordField s"
  "usesRecordField (s \<lparr> qrCodeInstance := b \<rparr>) = usesRecordField s"
  "usesRecordField (s \<lparr> nextInstance := c \<rparr>) = usesRecordField s"
  "usesRecordField (s \<lparr> renderer := d \<rparr>) = usesRecordField s"
  by (simp_all add: usesRecordField_def)

lemma isReadyToRender_frame [simp]:
  "isReadyToRender (s \<lparr> qrDiv := a \<rparr>) = isReadyToRender s"
  "isReadyToRender (s \<lparr> qrCodeInstance := b \<rparr>) = isReadyToRender s"
  "isReadyToRender (s \<lparr> nextInstance := c \<rparr>) = isReadyToRender s"
  "isReadyToRender (s \<lparr> renderer := d \<rparr>) = isReadyToRender s"
  by (simp_all add: isReadyToRender_def)

lemma getQualifiedFieldName_frame [simp]:
  "getQualifiedFieldName (s \<lparr> qrDiv := a \<rparr>) f = getQualifiedFieldName s f"
  "getQualifiedFieldName (s \<lparr> qrCodeInstance := b \<rparr>) f = getQualifiedFieldName s f"
  "getQualifiedFieldName (s \<lparr> nextInstance := c \<rparr>) f = getQualifiedFieldName s f"
  "getQualifiedFieldName (s \<lparr> renderer := d \<rparr>) f = getQualifiedFieldName s f"
  by (simp_all add: getQualifiedFieldName_def Let_def)

lemma qrValueResolved_frame [simp]:
  "qrValueResolved (s \<lparr> qrDiv := a \<rparr>) = qrValueResolved s"
  "qrValueResolved (s \<lparr> qrCodeInstance := b \<rparr>) = qrValueResolved s"
  "qrValueResolved (s \<lparr> nextInstance := c \<rparr>) = qrValueResolved s"
  "qrValueResolved (s \<lparr> renderer := d \<rparr>) = qrValueResolved s"
  by (simp_all add: qrValueResolved_def split: option.splits)

lemma buildOptions_frame [simp]:
  "buildOptions (s \<lparr> qrDiv := a \<rparr>) v = buildOptions s v"
  "buildOptions (s \<lparr> qrCodeInstance := b \<rparr>) v = buildOptions s v"
  "buildOptions (s \<lparr> nextInstance := c \<rparr>) v = buildOptions s v"
  "buildOptions (s \<lparr> renderer := d \<rparr>) v = buildOptions s v"
  by (simp_all add: buildOptions_def Let_def)

lemma tryRenderOrUpdateQr_reads [simp]:
  "cfg (tryRenderOrUpdateQr s) = cfg s"
  "recordSnap (tryRenderOrUpdateQr s) = recordSnap s"
  "urlParamValue (tryRenderOrUpdateQr s) = urlParamValue s"
  "domReady (tryRenderOrUpdateQr s) = domReady s"
  "qrCodeLibLoaded (tryRenderOrUpdateQr s) = qrCodeLibLoaded s"
  by (simp_all add: tryRenderOrUpdateQr_def Let_def split: option.splits)

lemma tryRenderOrUpdateQr_world [simp]:
  "error (tryRenderOrUpdateQr s) = error s"
  "scriptLoadStarted (tryRenderOrUpdateQr s) = scriptLoadStarted s"
  "console (tryRenderOrUpdateQr s) = console s"
  "loadScriptPromise (tryRenderOrUpdateQr s) = loadScriptPromise s"
  "loadScriptCalls (tryRenderOrUpdateQr s) = loadScriptCalls s"
  by (simp_all add: tryRenderOrUpdateQr_def Let_def split: option.splits)

lemma tryRenderOrUpdateQr_same_inputs [simp]:
  "isReadyToRender (tryRenderOrUpdateQr s) = isReadyToRender s"
  "qrValueResolved (tryRenderOrUpdateQr s) = qrValueResolved s"
  "buildOptions (tryRenderOrUpdateQr s) v = buildOptions s v"
  by (simp_all add: isReadyToRender_def usesRecordField_def qrValueResolved_def
      getQualifiedFieldName_def buildOptions_def Let_def split: option.splits)

lemma tryRenderOrUpdateQr_mount [simp]:
  "(qrDiv (tryRenderOrUpdateQr s) = None) = (qrDiv s = None)"
  by (simp add: tryRenderOrUpdateQr_def Let_def split: option.splits)

section \<open>The step run twice\<close>

text \<open>The state the examples start from is one an instance reaches: it is connected, the
  library loads, the template renders with the element \<open>.qrcode\<close> and no value yet, and
  then the owner provides the value.\<close>

lemma ready_state_reachable:
  "run [Connected, ScriptLoadResolved, MountInserted, Rendered, ApiSet (provided_config v)]
     initial_state = ready_state v"
  by (simp add: run_def ready_state_def initial_state_def initial_config_def
      connectedCallback_def scriptLoaded_def renderedCallback_def tryRenderOrUpdateQr_def
      isReadyToRender_def usesRecordField_def qrValueResolved_def js_or_def Let_def)

lemma tryRenderOrUpdateQr_twice:
  "tryRenderOrUpdateQr (tryRenderOrUpdateQr s) =
     (if isReadyToRender s \<and> qrDiv s \<noteq> None \<and> truthy (qrValueResolved s) then
        (tryRenderOrUpdateQr s)
          \<lparr> renderer := renderer (tryRenderOrUpdateQr s) @
              [Update (the (qrCodeInstance (tryRenderOrUpdateQr s)))
                 (buildOptions s (qrValueResolved s))] \<rparr>
      else tryRenderOrUpdateQr s)"
proof (cases "isReadyToRender s")
  case False
  then show ?thesis by (simp add: tryRenderOrUpdateQr_not_ready)
next
  case ready: True
  show ?thesis
  proof (cases "qrDiv s")
    case None
    then show ?thesis by (simp add: tryRenderOrUpdateQr_no_mount)
  next
    case (Some ch)
    show ?thesis
    proof (cases "truthy (qrValueResolved s)")
      case v: True
      show ?thesis
      proof (cases "qrCodeInstance s")
        case None
        from tryRenderOrUpdateQr_create [OF ready Some v None]
        have 1: "qrCodeInstance (tryRenderOrUpdateQr s) = Some (nextInstance s)"
          "qrDiv (tryRenderOrUpdateQr s) = Some [nextInstance s]"
          by simp_all
        from tryRenderOrUpdateQr_update [of "tryRenderOrUpdateQr s", OF _ 1(2) _ 1(1)]
          ready v Some 1
        show ?thesis by simp
      next
        case inst: (Some h)
        from tryRenderOrUpdateQr_update [OF ready Some v inst]
        have 1: "qrCodeInstance (tryRenderOrUpdateQr s) = Some h"
          "qrDiv (tryRenderOrUpdateQr s) = Some ch"
          using Some inst by simp_all
        from tryRenderOrUpdateQr_update [of "tryRenderOrUpdateQr s", OF _ 1(2) _ 1(1)]
          ready v Some 1
        show ?thesis by simp
      qed
    next
      case nv: False
      show ?thesis
      proof (cases "qrCodeInstance s")
        case None
        with nv show ?thesis by (simp add: tryRenderOrUpdateQr_no_value)
      next
        case inst: (Some h)
        from tryRenderOrUpdateQr_clear [OF ready Some nv inst]
        have "qrCodeInstance (tryRenderOrUpdateQr s) = None" by simp
        with nv show ?thesis by (simp add: tryRenderOrUpdateQr_no_value)
      qed
    qed
  qed
qed

lemma count_calls_first:
  "length (filter is_create_or_update (renderer (tryRenderOrUpdateQr s))) =
     length (filter is_create_or_update (renderer s)) +
       (if isReadyToRender s \<and> qrDiv s \<noteq> None \<and> truthy (qrValueResolved s) then 1 else 0)"
  by (simp add: tryRenderOrUpdateQr_renderer split: option.splits)

text \<open>
  Claim C2 as stated fails. A mounted instance with the library loaded, the mount point in
  place and the provided value \<open>ABC123\<close> has drawn nothing yet. The step run twice on it,
  with nothing in between, makes two create-or-update calls: the first creates the
  instance, the second updates it with the same options, so the second run is not a
  no-op.
\<close>

theorem render_twice_counterexample:
  "renderer (ready_state ''ABC123'') = [] \<and>
   renderer (tryRenderOrUpdateQr (tryRenderOrUpdateQr (ready_state ''ABC123''))) =
     [NewQRCodeStyling 0 (buildOptions (ready_state ''ABC123'') (JStr ''ABC123'')),
      Append 0,
      Update 0 (buildOptions (ready_state ''ABC123'') (JStr ''ABC123''))] \<and>
   length (filter is_create_or_update
     (renderer (tryRenderOrUpdateQr (tryRenderOrUpdateQr (ready_state ''ABC123''))))) = 2 \<and>
   tryRenderOrUpdateQr (tryRenderOrUpdateQr (ready_state ''ABC123'')) \<noteq>
     tryRenderOrUpdateQr (ready_state ''ABC123'')"
proof -
  let ?s = "ready_state ''ABC123''"
  have r: "isReadyToRender ?s"
    by (simp add: ready_state_def provided_config_def initial_state_def initial_config_def
        isReadyToRender_def usesRecordField_def)
  have v: "qrValueResolved ?s = JStr ''ABC123''"
    by (simp add: ready_state_def provided_config_def initial_state_def initial_config_def
        qrValueResolved_def usesRecordField_def js_or_def)
  have m: "qrDiv ?s = Some []" "qrCodeInstance ?s = None" "nextInstance ?s = 0"
    "renderer ?s = []"
    by (simp_all add: ready_state_def initial_state_def)
  have 1: "renderer (tryRenderOrUpdateQr ?s) =
      [NewQRCodeStyling 0 (buildOptions ?s (JStr ''ABC123'')), Append 0]"
    "qrCodeInstance (tryRenderOrUpdateQr ?s) = Some 0"
    using r v m by (simp_all add: tryRenderOrUpdateQr_create [of ?s "[]"])
  have 2: "renderer (tryRenderOrUpdateQr (tryRenderOrUpdateQr ?s)) =
      [NewQRCodeStyling 0 (buildOptions ?s (JStr ''ABC123'')), Append 0,
       Update 0 (buildOptions ?s (JStr ''ABC123''))]"
    using r v m 1 by (simp add: tryRenderOrUpdateQr_twice)
  have 3: "tryRenderOrUpdateQr (tryRenderOrUpdateQr ?s) \<noteq> tryRenderOrUpdateQr ?s"
  proof
    assume "tryRenderOrUpdateQr (tryRenderOrUpdateQr ?s) = tryRenderOrUpdateQr ?s"
    then have "renderer (tryRenderOrUpdateQr (tryRenderOrUpdateQr ?s)) =
        renderer (tryRenderOrUpdateQr ?s)"
      by simp
    with 1 2 show False by simp
  qed
  from m 2 3 show ?thesis by simp
qed

text \<open>
  Claim C2, amended. The step run twice in succession, with no change of state in between,
  never creates twice. The second run leaves the component and the mount point as the
  first run left them, but it is not a no-op on the rendering library: when the step is
  ready, finds the mount point and has a non-empty value, the second run makes one update
  call with the options of the first. The two runs together make two create-or-update
  calls in that case (a create or an update, then an update) and none otherwise.
\<close>

theorem render_twice:
  "tryRenderOrUpdateQr (tryRenderOrUpdateQr s) =
     (tryRenderOrUpdateQr s)
       \<lparr> renderer := renderer (tryRenderOrUpdateQr (tryRenderOrUpdateQr s)) \<rparr> \<and>
   renderer (tryRenderOrUpdateQr (tryRenderOrUpdateQr s)) =
     renderer (tryRenderOrUpdateQr s) @
       (if isReadyToRender s \<and> qrDiv s \<noteq> None \<and> truthy (qrValueResolved s)
        then [Update (the (qrCodeInstance (tryRenderOrUpdateQr s)))
                (buildOptions s (qrValueResolved s))]
        else []) \<and>
   filter is_create (renderer (tryRenderOrUpdateQr (tryRenderOrUpdateQr s))) =
     filter is_create (renderer (tryRenderOrUpdateQr s)) \<and>
   length (filter is_create_or_update
       (renderer (tryRenderOrUpdateQr (tryRenderOrUpdateQr s)))) =
     length (filter is_create_or_update (renderer s)) +
       (if isReadyToRender s \<and> qrDiv s \<noteq> None \<and> truthy (qrValueResolved s) then 2 else 0)"
proof -
  let ?c = "isReadyToRender s \<and> qrDiv s \<noteq> None \<and> truthy (qrValueResolved s)"
  have r: "renderer (tryRenderOrUpdateQr (tryRenderOrUpdateQr s)) =
     renderer (tryRenderOrUpdateQr s) @
       (if ?c then [Update (the (qrCodeInstance (tryRenderOrUpdateQr s)))
                (buildOptions s (qrValueResolved s))]
        else [])"
    by (subst tryRenderOrUpdateQr_twice) simp
  have e: "tryRenderOrUpdateQr (tryRenderOrUpdateQr s) =
     (tryRenderOrUpdateQr s)
       \<lparr> renderer := renderer (tryRenderOrUpdateQr (tryRenderOrUpdateQr s)) \<rparr>"
    by (subst (1 2) tryRenderOrUpdateQr_twice) simp
  have f: "filter is_create (renderer (tryRenderOrUpdateQr (tryRenderOrUpdateQr s))) =
     filter is_create (renderer (tryRenderOrUpdateQr s))"
    by (simp add: r)
  have n: "length (filter is_create_or_update
       (renderer (tryRenderOrUpdateQr (tryRenderOrUpdateQr s)))) =
     length (filter is_create_or_update (renderer s)) + (if ?c then 2 else 0)"
    by (simp add: r count_calls_first)
  from e r f n show ?thesis by blast
qed

text \<open>On the instance of the counterexample the two runs make two create-or-update calls,
  one of them a create; on a fresh instance, which is not ready, they make none.\<close>

theorem render_twice_witness:
  "length (filter is_create_or_update
     (renderer (tryRenderOrUpdateQr (tryRenderOrUpdateQr (ready_state ''ABC123''))))) = 2 \<and>
   length (filter is_create
     (renderer (tryRenderOrUpdateQr (tryRenderOrUpdateQr (ready_state ''ABC123''))))) = 1 \<and>
   length (filter is_create_or_update
     (renderer (tryRenderOrUpdateQr (tryRenderOrUpdateQr initial_state)))) = 0"
proof -
  let ?s = "ready_state ''ABC123''"
  have c: "isReadyToRender ?s \<and> qrDiv ?s \<noteq> None \<and> truthy (qrValueResolved ?s)"
    by code_simp
  have r: "renderer ?s = []" by code_simp
  have f: "length (filter is_create (renderer (tryRenderOrUpdateQr ?s))) = 1" by code_simp
  have n: "\<not> isReadyToRender initial_state" "renderer initial_state = []" by code_simp+
  note count = render_twice [THEN conjunct2, THEN conjunct2, THEN conjunct2]
  note creates = render_twice [THEN conjunct2, THEN conjunct2, THEN conjunct1]
  have 1: "length (filter is_create_or_update
     (renderer (tryRenderOrUpdateQr (tryRenderOrUpdateQr ?s)))) = 2"
    using c r by (simp add: count [of ?s])
  have 2: "length (filter is_create
     (renderer (tryRenderOrUpdateQr (tryRenderOrUpdateQr ?s)))) = 1"
    using f by (simp add: creates [of ?s])
  have 3: "length (filter is_create_or_update
     (renderer (tryRenderOrUpdateQr (tryRenderOrUpdateQr initial_state)))) = 0"
    using n by (simp add: count [of initial_state])
  from 1 2 3 show ?thesis by simp
qed

section \<open>The render handle\<close>

lemma run_Nil [simp]: "run [] s = s"
  by (simp add: run_def)

lemma run_snoc [simp]: "run (es @ [e]) s = step (run es s) e"
  by (simp add: run_def)

lemma run_Cons: "run (e # es) s = run es (step s e)"
  by (simp add: run_def)

lemma run_append: "run (es @ es') s = run es' (run es s)"
  by (simp add: run_def)

lemma handle_created_tryRenderOrUpdateQr:
  assumes "handle_created s"
  shows "handle_created (tryRenderOrUpdateQr s)"
proof (cases "isReadyToRender s \<and> qrDiv s \<noteq> None")
  case False
  then have "tryRenderOrUpdateQr s = s"
    by (auto simp: tryRenderOrUpdateQr_not_ready tryRenderOrUpdateQr_no_mount)
  with assms show ?thesis by simp
next
  case True
  then obtain ch where r: "isReadyToRender s" and m: "qrDiv s = Some ch" by auto
  show ?thesis
  proof (cases "truthy (qrValueResolved s)")
    case v: True
    show ?thesis
    proof (cases "qrCodeInstance s")
      case None
      show ?thesis
        by (simp add: tryRenderOrUpdateQr_create [OF r m v None] handle_created_def)
    next
      case inst: (Some h)
      with assms show ?thesis
        by (auto simp: tryRenderOrUpdateQr_update [OF r m v inst] handle_created_def)
    qed
  next
    case nv: False
    show ?thesis
    proof (cases "qrCodeInstance s")
      case None
      with assms nv show ?thesis by (simp add: tryRenderOrUpdateQr_no_value)
    next
      case inst: (Some h)
      show ?thesis
        by (simp add: tryRenderOrUpdateQr_clear [OF r m nv inst] handle_created_def)
    qed
  qed
qed

lemma handle_created_frame [simp]:
  "handle_created (s \<lparr> cfg := a \<rparr>) = handle_created s"
  "handle_created (s \<lparr> recordSnap := b \<rparr>) = handle_created s"
  "handle_created (s \<lparr> error := c \<rparr>) = handle_created s"
  "handle_created (s \<lparr> urlParamValue := d \<rparr>) = handle_created s"
  "handle_created (s \<lparr> qrCodeLibLoaded := e \<rparr>) = handle_created s"
  "handle_created (s \<lparr> domReady := f \<rparr>) = handle_created s"
  "handle_created (s \<lparr> scriptLoadStarted := g \<rparr>) = handle_created s"
  "handle_created (s \<lparr> qrDiv := h \<rparr>) = handle_created s"
  "handle_created (s \<lparr> console := i \<rparr>) = handle_created s"
  "handle_created (s \<lparr> loadScriptPromise := j \<rparr>) = handle_created s"
  "handle_created (s \<lparr> loadScriptCalls := k \<rparr>) = handle_created s"
  by (simp_all add: handle_created_def split: option.splits)

lemma handle_created_step:
  assumes "handle_created s"
  shows "handle_created (step s e)"
proof (cases e)
  case Connected
  with assms show ?thesis by (simp add: connectedCallback_def)
next
  case Rendered
  with assms show ?thesis
    by (simp add: renderedCallback_def handle_created_tryRenderOrUpdateQr)
next
  case MountInserted
  with assms show ?thesis by simp
next
  case MountRemoved
  with assms show ?thesis by simp
next
  case ScriptLoadResolved
  with assms show ?thesis
    by (simp add: scriptLoaded_def handle_created_tryRenderOrUpdateQr)
next
  case (ScriptLoadRejected x)
  with assms show ?thesis by (simp add: scriptFailed_def)
next
  case (RecordDelivered res)
  with assms show ?thesis
    by (cases res) (simp_all add: wiredRecord_def handle_created_tryRenderOrUpdateQr)
next
  case (PageRefDelivered p)
  with assms show ?thesis
    by (simp add: wiredPageRef_def Let_def handle_created_tryRenderOrUpdateQr)
next
  case (ApiSet c)
  with assms show ?thesis by simp
qed

lemma handle_created_run: "handle_created (run es initial_state)"
proof (induction es rule: rev_induct)
  case Nil
  show ?case by (simp add: handle_created_def initial_state_def)
next
  case (snoc e es)
  then show ?case by (simp add: handle_created_step)
qed

text \<open>
  What happens if the template takes the element \<open>.qrcode\<close> away while the value is
  empty. The provided value \<open>ABC123\<close> is drawn, then the value is cleared and the element
  removed. The instance is ready, but the step finds no mount point and returns before the
  clearing branch: the handle stays. When the element is back and the value is \<open>XYZ\<close>,
  the step updates the old instance; it does not create a new one.
\<close>

theorem mount_removed_keeps_handle:
  "truthy (qrValueResolved (run drawn_events initial_state)) \<and>
   qrCodeInstance (run drawn_events initial_state) = Some 0 \<and>
   isReadyToRender (run (drawn_events @ [ApiSet initial_config, MountRemoved]) initial_state) \<and>
   \<not> truthy (qrValueResolved
       (run (drawn_events @ [ApiSet initial_config, MountRemoved]) initial_state)) \<and>
   qrCodeInstance (tryRenderOrUpdateQr
       (run (drawn_events @ [ApiSet initial_config, MountRemoved]) initial_state)) = Some 0 \<and>
   map is_create (renderer
       (run (drawn_events @ [ApiSet initial_config, MountRemoved, Rendered,
          ApiSet (provided_config ''XYZ''), MountInserted, Rendered]) initial_state)) =
     [True, False, False] \<and>
   map is_update (renderer
       (run (drawn_events @ [ApiSet initial_config, MountRemoved, Rendered,
          ApiSet (provided_config ''XYZ''), MountInserted, Rendered]) initial_state)) =
     [False, False, True]"
  by code_simp

text \<open>
  What the step does with the handle when it is ready and finds the mount point. A
  resolved value that has become empty after a render makes it clear the mount point and
  null the handle, with no call on the library; a non-empty value after that makes it
  create a fresh instance rather than update the old one. The handle is null on a fresh
  component and becomes non-null only by a create call that made the instance it names; an
  update keeps the handle and creates nothing.
\<close>

theorem handle_lifecycle:
  "(isReadyToRender s \<and> qrDiv s \<noteq> None \<and> \<not> truthy (qrValueResolved s) \<and>
      qrCodeInstance s \<noteq> None \<longrightarrow>
      tryRenderOrUpdateQr s = s \<lparr> qrDiv := Some [], qrCodeInstance := None \<rparr> \<and>
      (\<forall>c. isReadyToRender ((tryRenderOrUpdateQr s) \<lparr> cfg := c \<rparr>) \<and>
           truthy (qrValueResolved ((tryRenderOrUpdateQr s) \<lparr> cfg := c \<rparr>)) \<longrightarrow>
           qrCodeInstance (tryRenderOrUpdateQr ((tryRenderOrUpdateQr s) \<lparr> cfg := c \<rparr>)) =
             Some (nextInstance s) \<and>
           renderer (tryRenderOrUpdateQr ((tryRenderOrUpdateQr s) \<lparr> cfg := c \<rparr>)) =
             renderer s @
               [NewQRCodeStyling (nextInstance s)
                  (buildOptions ((tryRenderOrUpdateQr s) \<lparr> cfg := c \<rparr>)
                     (qrValueResolved ((tryRenderOrUpdateQr s) \<lparr> cfg := c \<rparr>))),
                Append (nextInstance s)])) \<and>
   (isReadyToRender s \<and> qrDiv s \<noteq> None \<and> truthy (qrValueResolved s) \<and>
      qrCodeInstance s = None \<longrightarrow>
      tryRenderOrUpdateQr s =
        s \<lparr> qrDiv := Some [nextInstance s],
            qrCodeInstance := Some (nextInstance s),
            nextInstance := Suc (nextInstance s),
            renderer := renderer s @
              [NewQRCodeStyling (nextInstance s) (buildOptions s (qrValueResolved s)),
               Append (nextInstance s)] \<rparr>) \<and>
   (\<forall>h. isReadyToRender s \<and> qrDiv s \<noteq> None \<and> truthy (qrValueResolved s) \<and>
      qrCodeInstance s = Some h \<longrightarrow>
      tryRenderOrUpdateQr s =
        s \<lparr> renderer := renderer s @ [Update h (buildOptions s (qrValueResolved s))] \<rparr>) \<and>
   qrCodeInstance initial_state = None \<and>
   (\<forall>es. handle_created (run es initial_state))"
proof (intro conjI impI allI)
  assume a: "isReadyToRender s \<and> qrDiv s \<noteq> None \<and> \<not> truthy (qrValueResolved s) \<and>
      qrCodeInstance s \<noteq> None"
  then obtain ch h where m: "qrDiv s = Some ch" and i: "qrCodeInstance s = Some h" by auto
  from a have r: "isReadyToRender s" and nv: "\<not> truthy (qrValueResolved s)" by simp_all
  show c: "tryRenderOrUpdateQr s = s \<lparr> qrDiv := Some [], qrCodeInstance := None \<rparr>"
    by (rule tryRenderOrUpdateQr_clear [OF r m nv i])
  fix c
  let ?s' = "(tryRenderOrUpdateQr s) \<lparr> cfg := c \<rparr>"
  assume b: "isReadyToRender ?s' \<and> truthy (qrValueResolved ?s')"
  have m': "qrDiv ?s' = Some []" and i': "qrCodeInstance ?s' = None"
    and n': "nextInstance ?s' = nextInstance s" and r': "renderer ?s' = renderer s"
    by (simp_all add: c)
  from b have "isReadyToRender ?s'" and "truthy (qrValueResolved ?s')" by simp_all
  from tryRenderOrUpdateQr_create [OF this(1) m' this(2) i']
  have e: "tryRenderOrUpdateQr ?s' =
     ?s' \<lparr> qrDiv := Some [nextInstance s],
         qrCodeInstance := Some (nextInstance s),
         nextInstance := Suc (nextInstance s),
         renderer := renderer s @
           [NewQRCodeStyling (nextInstance s) (buildOptions ?s' (qrValueResolved ?s')),
            Append (nextInstance s)] \<rparr>"
    by (simp only: n' r')
  show "qrCodeInstance (tryRenderOrUpdateQr ?s') = Some (nextInstance s)"
    by (subst e) simp
  show "renderer (tryRenderOrUpdateQr ?s') =
      renderer s @
        [NewQRCodeStyling (nextInstance s) (buildOptions ?s' (qrValueResolved ?s')),
         Append (nextInstance s)]"
    by (subst e) simp
next
  assume a: "isReadyToRender s \<and> qrDiv s \<noteq> None \<and> truthy (qrValueResolved s) \<and>
      qrCodeInstance s = None"
  then obtain ch where m: "qrDiv s = Some ch" by auto
  from a show "tryRenderOrUpdateQr s =
        s \<lparr> qrDiv := Some [nextInstance s],
            qrCodeInstance := Some (nextInstance s),
            nextInstance := Suc (nextInstance s),
            renderer := renderer s @
              [NewQRCodeStyling (nextInstance s) (buildOptions s (qrValueResolved s)),
               Append (nextInstance s)] \<rparr>"
    by (simp add: tryRenderOrUpdateQr_create [OF _ m])
next
  fix h
  assume a: "isReadyToRender s \<and> qrDiv s \<noteq> None \<and> truthy (qrValueResolved s) \<and>
      qrCodeInstance s = Some h"
  then obtain ch where m: "qrDiv s = Some ch" by auto
  from a show "tryRenderOrUpdateQr s =
        s \<lparr> renderer := renderer s @ [Update h (buildOptions s (qrValueResolved s))] \<rparr>"
    by (simp add: tryRenderOrUpdateQr_update [OF _ m])
next
  show "qrCodeInstance initial_state = None" by (simp add: initial_state_def)
next
  fix es
  show "handle_created (run es initial_state)" by (rule handle_created_run)
qed

text \<open>The provided value \<open>ABC123\<close> is drawn and then cleared, with the mount point in
  place: the step empties the mount point and nulls the handle, and the value \<open>XYZ\<close>
  after that is drawn by a second create call. While the value stays, the step updates and
  keeps the handle.\<close>

theorem handle_lifecycle_witness:
  "qrCodeInstance (run (drawn_events @ [ApiSet initial_config]) initial_state) = Some 0 \<and>
   qrCodeInstance (tryRenderOrUpdateQr
      (run (drawn_events @ [ApiSet initial_config]) initial_state)) = None \<and>
   qrDiv (tryRenderOrUpdateQr
      (run (drawn_events @ [ApiSet initial_config]) initial_state)) = Some [] \<and>
   map is_create (renderer (tryRenderOrUpdateQr
      ((tryRenderOrUpdateQr (run (drawn_events @ [ApiSet initial_config]) initial_state))
         \<lparr> cfg := provided_config ''XYZ'' \<rparr>))) = [True, False, True, False] \<and>
   qrCodeInstance (tryRenderOrUpdateQr (run drawn_events initial_state)) = Some 0 \<and>
   map is_create (renderer (tryRenderOrUpdateQr (run drawn_events initial_state))) =
     [True, False, False] \<and>
   handle_created (run drawn_events initial_state)"
proof -
  let ?t = "run (drawn_events @ [ApiSet initial_config]) initial_state"
  let ?d = "run drawn_events initial_state"
  have t: "isReadyToRender ?t \<and> qrDiv ?t \<noteq> None \<and> \<not> truthy (qrValueResolved ?t) \<and>
      qrCodeInstance ?t \<noteq> None"
    by code_simp
  have t0: "qrCodeInstance ?t = Some 0" by code_simp
  have tn: "nextInstance ?t = 1" by code_simp
  have tr: "map is_create (renderer ?t) = [True, False]" by code_simp
  from handle_lifecycle [of ?t] t
  have c: "tryRenderOrUpdateQr ?t = ?t \<lparr> qrDiv := Some [], qrCodeInstance := None \<rparr>"
    by blast
  have c1: "qrCodeInstance (tryRenderOrUpdateQr ?t) = None"
    "qrDiv (tryRenderOrUpdateQr ?t) = Some []"
    unfolding c by simp_all
  let ?x = "(tryRenderOrUpdateQr ?t) \<lparr> cfg := provided_config ''XYZ'' \<rparr>"
  have x: "isReadyToRender ?x \<and> truthy (qrValueResolved ?x)"
    by code_simp
  from handle_lifecycle [of ?t] t x
  have "renderer (tryRenderOrUpdateQr ?x) =
      renderer ?t @
        [NewQRCodeStyling (nextInstance ?t) (buildOptions ?x (qrValueResolved ?x)),
         Append (nextInstance ?t)]"
    by blast
  then have c2: "map is_create (renderer (tryRenderOrUpdateQr ?x)) = [True, False, True, False]"
    using tr by simp
  have d: "isReadyToRender ?d \<and> qrDiv ?d \<noteq> None \<and> truthy (qrValueResolved ?d) \<and>
      qrCodeInstance ?d = Some 0"
    by code_simp
  have dr: "map is_create (renderer ?d) = [True, False]" by code_simp
  from handle_lifecycle [of ?d] d
  have u: "tryRenderOrUpdateQr ?d =
        ?d \<lparr> renderer := renderer ?d @ [Update 0 (buildOptions ?d (qrValueResolved ?d))] \<rparr>"
    by blast
  have u1: "qrCodeInstance (tryRenderOrUpdateQr ?d) = Some 0"
    by (subst u) (simp add: d)
  have u2: "map is_create (renderer (tryRenderOrUpdateQr ?d)) = [True, False, False]"
    by (subst u) (simp add: dr)
  from handle_lifecycle [of ?d] have h: "handle_created ?d" by blast
  from t0 c1 c2 u1 u2 h show ?thesis by simp
qed

text \<open>
  Claim C4, evaluated where the code departs from it. On a record page the name \<open>Acme\<close>
  is drawn. A fetch error then drops the snapshot: the resolved value has gone from
  non-empty to empty after a render. The step, run by the next render pass, does not clear
  the mount point and does not null the handle. When the next snapshot brings the name
  \<open>Beta\<close>, the step updates the old instance: there is no fresh create call.
\<close>

theorem value_lost_keeps_handle:
  "qrValueResolved (run record_drawn_events initial_state) = JStr ''Acme'' \<and>
   qrCodeInstance (run record_drawn_events initial_state) = Some 0 \<and>
   qrValueResolved (run (record_drawn_events @
       [RecordDelivered (WireError ''fetch failed'')]) initial_state) = JNull \<and>
   qrDiv (tryRenderOrUpdateQr (run (record_drawn_events @
       [RecordDelivered (WireError ''fetch failed'')]) initial_state)) = Some [0] \<and>
   qrCodeInstance (tryRenderOrUpdateQr (run (record_drawn_events @
       [RecordDelivered (WireError ''fetch failed'')]) initial_state)) = Some 0 \<and>
   qrValueResolved (run (record_drawn_events @
       [RecordDelivered (WireError ''fetch failed''), Rendered,
        RecordDelivered (WireData [''Account.Name'' \<mapsto> JStr ''Beta''])]) initial_state)
     = JStr ''Beta'' \<and>
   map is_create (renderer (run (record_drawn_events @
       [RecordDelivered (WireError ''fetch failed''), Rendered,
        RecordDelivered (WireData [''Account.Name'' \<mapsto> JStr ''Beta''])]) initial_state))
     = [True, False, False] \<and>
   map is_update (renderer (run (record_drawn_events @
       [RecordDelivered (WireError ''fetch failed''), Rendered,
        RecordDelivered (WireData [''Account.Name'' \<mapsto> JStr ''Beta''])]) initial_state))
     = [False, False, True] \<and>
   qrCodeInstance (run (record_drawn_events @
       [RecordDelivered (WireError ''fetch failed''), Rendered,
        RecordDelivered (WireData [''Account.Name'' \<mapsto> JStr ''Beta''])]) initial_state)
     = Some 0"
  by code_simp

text \<open>The iteration with a static value has no clearing branch: its step never nulls the
  handle.\<close>

lemma tryRenderOrUpdateQr_v2_keeps_handle:
  "qrCodeInstance s = Some h \<Longrightarrow> qrCodeInstance (tryRenderOrUpdateQr_v2 v s) = Some h"
  by (simp add: tryRenderOrUpdateQr_v2_def Let_def split: option.splits)

text \<open>Its readiness getter asks for the static value outside record-field mode, where the
  latest one asks for nothing.\<close>

lemma isReadyToRender_v2_static:
  "\<not> usesRecordField s \<Longrightarrow>
     isReadyToRender_v2 v s = (isReadyToRender s \<and> truthy v)"
  by (auto simp: isReadyToRender_v2_def isReadyToRender_def)

section \<open>A failed script load\<close>

lemma load_inv_initial: "load_inv initial_state"
  by (simp add: load_inv_def initial_state_def)

lemma load_inv_tryRenderOrUpdateQr:
  assumes "load_inv s"
  shows "load_inv (tryRenderOrUpdateQr s)"
proof (cases "qrCodeLibLoaded s")
  case True
  with assms show ?thesis by (simp add: load_inv_def)
next
  case False
  then have "tryRenderOrUpdateQr s = s"
    by (simp add: tryRenderOrUpdateQr_not_ready isReadyToRender_def)
  with assms show ?thesis by simp
qed

lemma load_inv_frame [simp]:
  "load_inv (s \<lparr> cfg := a \<rparr>) = load_inv s"
  "load_inv (s \<lparr> recordSnap := b \<rparr>) = load_inv s"
  "load_inv (s \<lparr> error := c \<rparr>) = load_inv s"
  "load_inv (s \<lparr> urlParamValue := d \<rparr>) = load_inv s"
  "load_inv (s \<lparr> domReady := f \<rparr>) = load_inv s"
  "load_inv (s \<lparr> qrDiv := h \<rparr>) = load_inv s"
  "load_inv (s \<lparr> console := i \<rparr>) = load_inv s"
  by (simp_all add: load_inv_def)

lemma load_inv_step:
  assumes "load_inv s"
  shows "load_inv (step s e)"
proof (cases e)
  case Connected
  with assms show ?thesis by (auto simp: connectedCallback_def load_inv_def)
next
  case Rendered
  with assms show ?thesis
    by (simp add: renderedCallback_def load_inv_tryRenderOrUpdateQr)
next
  case MountInserted
  with assms show ?thesis by simp
next
  case MountRemoved
  with assms show ?thesis by simp
next
  case ScriptLoadResolved
  show ?thesis
  proof (cases "loadScriptPromise s = Pending")
    case True
    with assms have "load_inv (s \<lparr> loadScriptPromise := Fulfilled, qrCodeLibLoaded := True \<rparr>)"
      by (simp add: load_inv_def)
    with True ScriptLoadResolved show ?thesis
      by (simp add: scriptLoaded_def load_inv_tryRenderOrUpdateQr)
  next
    case False
    with assms ScriptLoadResolved show ?thesis by simp
  qed
next
  case (ScriptLoadRejected x)
  with assms show ?thesis by (auto simp: scriptFailed_def load_inv_def)
next
  case (RecordDelivered res)
  with assms show ?thesis
    by (cases res) (simp_all add: wiredRecord_def load_inv_tryRenderOrUpdateQr)
next
  case (PageRefDelivered p)
  with assms show ?thesis
    by (simp add: wiredPageRef_def Let_def load_inv_tryRenderOrUpdateQr)
next
  case (ApiSet c)
  with assms show ?thesis by simp
qed

lemma load_inv_run: "load_inv s \<Longrightarrow> load_inv (run es s)"
  by (induction es rule: rev_induct) (simp_all add: load_inv_step)

text \<open>A settled promise stays settled: once the load is rejected, no event makes it
  pending or fulfilled again.\<close>

lemma rejected_step:
  assumes "load_inv s" and "loadScriptPromise s = Rejected"
  shows "loadScriptPromise (step s e) = Rejected"
proof (cases e)
  case Connected
  from assms have "scriptLoadStarted s" by (simp add: load_inv_def)
  with assms Connected show ?thesis by (simp add: connectedCallback_def)
next
  case Rendered
  with assms show ?thesis by (simp add: renderedCallback_def)
next
  case (RecordDelivered res)
  with assms show ?thesis by (cases res) (simp_all add: wiredRecord_def)
next
  case (PageRefDelivered p)
  with assms show ?thesis by (simp add: wiredPageRef_def Let_def)
qed (use assms in simp_all)

lemma rejected_run:
  "load_inv s \<Longrightarrow> loadScriptPromise s = Rejected \<Longrightarrow>
     load_inv (run es s) \<and> loadScriptPromise (run es s) = Rejected"
  by (induction es rule: rev_induct) (simp_all add: load_inv_step rejected_step)

text \<open>Nothing is ever taken off the console.\<close>

lemma console_step: "m \<in> set (console s) \<Longrightarrow> m \<in> set (console (step s e))"
proof (cases e)
  case (RecordDelivered res)
  assume "m \<in> set (console s)"
  with RecordDelivered show ?thesis by (cases res) (simp_all add: wiredRecord_def)
qed (simp_all add: connectedCallback_def renderedCallback_def scriptLoaded_def
      scriptFailed_def wiredPageRef_def Let_def)

lemma console_run: "m \<in> set (console s) \<Longrightarrow> m \<in> set (console (run es s))"
  by (induction es rule: rev_induct) (simp_all add: console_step)

text \<open>
  Claim C9. If the script load fails, the failure is logged and the widget stays in a
  non-rendering state for the rest of the instance's life. Whatever happened before the
  promise of \<open>loadScript\<close> is rejected and whatever happens after: the rejection writes
  one line to the console and changes nothing else, \<open>qrCodeLibLoaded\<close> is never true,
  the step is never ready, no call on the rendering library is ever made and no handle is
  ever held, \<open>loadScript\<close> has been called once and is not called again, and the promise
  stays rejected. The \<open>catch\<close> handler returns normally: every handler of the component
  is a total function from states to states, so nothing is thrown to the caller.
\<close>

theorem script_load_failure:
  assumes "loadScriptPromise (run pre initial_state) = Pending"
  shows "step (run pre initial_state) (ScriptLoadRejected e) =
      (run pre initial_state)
        \<lparr> console := console (run pre initial_state) @ [''Error loading qr-code-styling:'' @ e],
          loadScriptPromise := Rejected \<rparr> \<and>
    (\<forall>post.
       \<not> qrCodeLibLoaded (run (pre @ ScriptLoadRejected e # post) initial_state) \<and>
       \<not> isReadyToRender (run (pre @ ScriptLoadRejected e # post) initial_state) \<and>
       renderer (run (pre @ ScriptLoadRejected e # post) initial_state) = [] \<and>
       qrCodeInstance (run (pre @ ScriptLoadRejected e # post) initial_state) = None \<and>
       loadScriptCalls (run (pre @ ScriptLoadRejected e # post) initial_state) = 1 \<and>
       loadScriptPromise (run (pre @ ScriptLoadRejected e # post) initial_state) = Rejected \<and>
       (''Error loading qr-code-styling:'' @ e)
         \<in> set (console (run (pre @ ScriptLoadRejected e # post) initial_state)))"
proof
  let ?p = "run pre initial_state"
  let ?f = "step ?p (ScriptLoadRejected e)"
  show f: "?f = ?p \<lparr> console := console ?p @ [''Error loading qr-code-styling:'' @ e],
          loadScriptPromise := Rejected \<rparr>"
    using assms by (simp add: scriptFailed_def)
  have ip: "load_inv ?p" by (simp add: load_inv_run load_inv_initial)
  then have i: "load_inv ?f" by (rule load_inv_step)
  have r: "loadScriptPromise ?f = Rejected" by (subst f) simp
  have m: "(''Error loading qr-code-styling:'' @ e) \<in> set (console ?f)" by (subst f) simp
  show "\<forall>post.
       \<not> qrCodeLibLoaded (run (pre @ ScriptLoadRejected e # post) initial_state) \<and>
       \<not> isReadyToRender (run (pre @ ScriptLoadRejected e # post) initial_state) \<and>
       renderer (run (pre @ ScriptLoadRejected e # post) initial_state) = [] \<and>
       qrCodeInstance (run (pre @ ScriptLoadRejected e # post) initial_state) = None \<and>
       loadScriptCalls (run (pre @ ScriptLoadRejected e # post) initial_state) = 1 \<and>
       loadScriptPromise (run (pre @ ScriptLoadRejected e # post) initial_state) = Rejected \<and>
       (''Error loading qr-code-styling:'' @ e)
         \<in> set (console (run (pre @ ScriptLoadRejected e # post) initial_state))"
  proof
    fix post
    let ?t = "run (pre @ ScriptLoadRejected e # post) initial_state"
    have t: "?t = run post ?f" by (simp add: run_append run_Cons)
    from rejected_run [OF i r, of post]
    have it: "load_inv (run post ?f)" and rt: "loadScriptPromise (run post ?f) = Rejected"
      by simp_all
    from it rt have l: "\<not> qrCodeLibLoaded (run post ?f)" by (simp add: load_inv_def)
    with it have "renderer (run post ?f) = []" "qrCodeInstance (run post ?f) = None"
      by (simp_all add: load_inv_def)
    moreover from l have "\<not> isReadyToRender (run post ?f)" by (simp add: isReadyToRender_def)
    moreover from it rt have "loadScriptCalls (run post ?f) = 1" by (simp add: load_inv_def)
    moreover from m have "(''Error loading qr-code-styling:'' @ e) \<in> set (console (run post ?f))"
      by (rule console_run)
    ultimately show "\<not> qrCodeLibLoaded ?t \<and> \<not> isReadyToRender ?t \<and> renderer ?t = [] \<and>
       qrCodeInstance ?t = None \<and> loadScriptCalls ?t = 1 \<and> loadScriptPromise ?t = Rejected \<and>
       (''Error loading qr-code-styling:'' @ e) \<in> set (console ?t)"
      using l rt by (simp only: t) simp
  qed
qed

text \<open>The provided value \<open>ABC123\<close> is configured, the component is connected and mounted,
  and the load fails with \<open>404\<close>. Later render passes, a second connect, a late
  resolution of the promise and a new value draw nothing.\<close>

theorem script_load_failure_witness:
  "loadScriptPromise
     (run [ApiSet (provided_config ''ABC123''), Connected, MountInserted, Rendered]
        initial_state) = Pending \<and>
   console
     (run ([ApiSet (provided_config ''ABC123''), Connected, MountInserted, Rendered] @
           [ScriptLoadRejected ''404'']) initial_state) =
     [''Error loading qr-code-styling:404''] \<and>
   \<not> qrCodeLibLoaded
     (run ([ApiSet (provided_config ''ABC123''), Connected, MountInserted, Rendered] @
           ScriptLoadRejected ''404'' #
           [Rendered, Connected, ScriptLoadResolved, ApiSet (provided_config ''XYZ''), Rendered])
        initial_state) \<and>
   renderer
     (run ([ApiSet (provided_config ''ABC123''), Connected, MountInserted, Rendered] @
           ScriptLoadRejected ''404'' #
           [Rendered, Connected, ScriptLoadResolved, ApiSet (provided_config ''XYZ''), Rendered])
        initial_state) = [] \<and>
   loadScriptCalls
     (run ([ApiSet (provided_config ''ABC123''), Connected, MountInserted, Rendered] @
           ScriptLoadRejected ''404'' #
           [Rendered, Connected, ScriptLoadResolved, ApiSet (provided_config ''XYZ''), Rendered])
        initial_state) = 1"
proof -
  let ?pre = "[ApiSet (provided_config ''ABC123''), Connected, MountInserted, Rendered]"
  let ?post = "[Rendered, Connected, ScriptLoadResolved, ApiSet (provided_config ''XYZ''),
    Rendered]"
  have p: "loadScriptPromise (run ?pre initial_state) = Pending" by code_simp
  have c0: "console (run ?pre initial_state) = []" by code_simp
  note f = script_load_failure [OF p, of "''404''"]
  from f have "step (run ?pre initial_state) (ScriptLoadRejected ''404'') =
      (run ?pre initial_state)
        \<lparr> console := console (run ?pre initial_state) @ [''Error loading qr-code-styling:'' @ ''404''],
          loadScriptPromise := Rejected \<rparr>"
    by (rule conjunct1)
  then have c: "console (run (?pre @ [ScriptLoadRejected ''404'']) initial_state) =
      [''Error loading qr-code-styling:404'']"
    using c0 by (simp only: run_snoc) simp
  from f have "\<not> qrCodeLibLoaded (run (?pre @ ScriptLoadRejected ''404'' # ?post) initial_state) \<and>
      renderer (run (?pre @ ScriptLoadRejected ''404'' # ?post) initial_state) = [] \<and>
      loadScriptCalls (run (?pre @ ScriptLoadRejected ''404'' # ?post) initial_state) = 1"
    by blast
  with p c show ?thesis by blast
qed

section \<open>A failed record fetch\<close>

text \<open>What \<open>wiredRecord\<close> does with an error: it stores it, drops the snapshot and logs.
  It does not run the draw step, and the draw step, run afterwards in record-field mode,
  is not ready and returns at once.\<close>

lemma wiredRecord_error:
  "wiredRecord (WireError e) s =
     s \<lparr> recordSnap := None, error := Some e, console := console s @ [e] \<rparr>"
  by (simp add: wiredRecord_def)

lemma wiredRecord_error_no_call:
  "renderer (wiredRecord (WireError e) s) = renderer s \<and>
   qrCodeInstance (wiredRecord (WireError e) s) = qrCodeInstance s \<and>
   qrDiv (wiredRecord (WireError e) s) = qrDiv s"
  by (simp add: wiredRecord_error)

lemma wiredRecord_error_stuck:
  assumes "usesRecordField s"
  shows "tryRenderOrUpdateQr (wiredRecord (WireError e) s) = wiredRecord (WireError e) s"
proof -
  from assms have "usesRecordField (wiredRecord (WireError e) s)"
    by (simp add: wiredRecord_error usesRecordField_def)
  then have "\<not> isReadyToRender (wiredRecord (WireError e) s)"
    by (simp add: isReadyToRender_def wiredRecord_error)
  then show ?thesis by (rule tryRenderOrUpdateQr_not_ready)
qed

lemma wiredRecord_recovers:
  "recordSnap (wiredRecord (WireData d) (wiredRecord (WireError e) s)) = Some d \<and>
   error (wiredRecord (WireData d) (wiredRecord (WireError e) s)) = None"
  by (simp add: wiredRecord_def)

text \<open>
  Claim C3, evaluated where the code departs from it. On a record page the name \<open>Acme\<close>
  is drawn; then the record fetch delivers an error and a render pass follows. The error is
  stored, the resolved value is \<open>null\<close> and no call is made on the rendering library, as
  the claim says. But the artifact drawn before is not cleared: the mount point still
  holds instance \<open>0\<close> and the handle still names it.
\<close>

theorem record_error_keeps_artifact:
  "usesRecordField (run record_drawn_events initial_state) \<and>
   qrValueResolved (run record_drawn_events initial_state) = JStr ''Acme'' \<and>
   qrDiv (run record_drawn_events initial_state) = Some [0] \<and>
   qrCodeInstance (run record_drawn_events initial_state) = Some 0 \<and>
   map is_create (renderer (run record_drawn_events initial_state)) = [True, False] \<and>
   error (run (record_drawn_events @
       [RecordDelivered (WireError ''fetch failed''), Rendered]) initial_state)
     = Some ''fetch failed'' \<and>
   qrValueResolved (run (record_drawn_events @
       [RecordDelivered (WireError ''fetch failed''), Rendered]) initial_state) = JNull \<and>
   renderer (run (record_drawn_events @
       [RecordDelivered (WireError ''fetch failed''), Rendered]) initial_state)
     = renderer (run record_drawn_events initial_state) \<and>
   qrDiv (run (record_drawn_events @
       [RecordDelivered (WireError ''fetch failed''), Rendered]) initial_state) = Some [0] \<and>
   qrCodeInstance (run (record_drawn_events @
       [RecordDelivered (WireError ''fetch failed''), Rendered]) initial_state) = Some 0"
  by code_simp

end
